theory Spec2Isabelle
  imports Main "HOL-Library.AList"
begin

section \<open>SpacyNLP: the component that links spaCy to the pipeline\<close>

text \<open>
  A shallow embedding of \<^verbatim>\<open>rasa/nlu/utils/spacy_utils.py\<close>. \<^verbatim>\<open>None\<close> is \<^const>\<open>None\<close>
  and a raised exception is the \<^const>\<open>Inl\<close> side of a sum. Calls that leave the component
  (the warning channel, the logger,
  \<^verbatim>\<open>spacy.load\<close>, \<^verbatim>\<open>nlp(text)\<close>, \<^verbatim>\<open>nlp.pipe(texts)\<close>) are recorded, in the order they
  happen, in a list of events returned beside the result.
\<close>

subsection \<open>Values, errors and events\<close>

text \<open>A Python \<^verbatim>\<open>str\<close> is a sequence of Unicode code points. The names, keys and messages
  that the component only compares and joins are written as \<^typ>\<open>string\<close>; a text of a
  message, which may be lower-cased, is the list of its code points.\<close>

type_synonym py_str = "nat list"

definition str :: "string \<Rightarrow> py_str" where
  "str s = map of_char s"

datatype error =
    InvalidModelError string
  | Exception string
  | OSError string
  | AttributeError string
  | TypeError string
  | KeyError string
  | IndexError

datatype event =
    DeprecationWarning string string
  | LoggerInfo string
  | SpacyLoad string "string list"
  | NlpCall py_str
  | PipeCall "py_str list" nat

text \<open>The constants imported from \<^verbatim>\<open>rasa.shared.constants\<close> and \<^verbatim>\<open>rasa.nlu.constants\<close>.
  Their values are not part of this file, so they are parameters of the model.\<close>

record constants =
  DOCS_URL_COMPONENTS :: string
  DENSE_FEATURIZABLE_ATTRIBUTES :: "string list"
  SPACY_DOCS :: "string \<Rightarrow> string"

text \<open>The entries of \<^verbatim>\<open>component_config\<close> that this file reads with \<^verbatim>\<open>.get\<close>;
  a missing key and a key bound to \<^verbatim>\<open>None\<close> both read as \<^const>\<open>None\<close>.\<close>

record config =
  model :: "string option"
  case_sensitive :: "bool option"

text \<open>\<^verbatim>\<open>RasaNLUModelConfig\<close> and \<^verbatim>\<open>Metadata\<close>: only \<^verbatim>\<open>.language\<close> is read.\<close>

record metadata =
  language :: string

definition apostrophe :: string where
  "apostrophe = [CHR 0x27]"

definition newline :: string where
  "newline = [CHR 0x0A]"

subsection \<open>Model name resolution\<close>

definition fallback_mapping :: "(string \<times> string) list" where
  "fallback_mapping =
    [(''zh'', ''zh_core_web_md''),
     (''da'', ''da_core_news_md''),
     (''nl'', ''nl_core_news_md''),
     (''en'', ''en_core_web_md''),
     (''fr'', ''fr_core_news_md''),
     (''de'', ''de_core_news_sm''),
     (''el'', ''el_core_news_md''),
     (''it'', ''it_core_news_md''),
     (''ja'', ''ja_core_news_md''),
     (''lt'', ''lt_core_news_md''),
     (''mk'', ''mk_core_news_md''),
     (''nb'', ''nb_core_news_md''),
     (''pl'', ''pl_core_news_md''),
     (''pt'', ''pt_core_news_md''),
     (''ro'', ''ro_core_news_md''),
     (''ru'', ''ru_core_news_md''),
     (''es'', ''es_core_news_md'')]"

definition no_fallback_message :: "constants \<Rightarrow> string \<Rightarrow> string" where
  "no_fallback_message c language_name =
     ''There is no fallback model for language '' @ apostrophe @ language_name @ apostrophe @ ''. ''
     @ ''Please add a `model` property to `SpacyNLP` manually to prevent this. ''
     @ ''More informaton can be found on '' @ DOCS_URL_COMPONENTS c @ ''#spacynlp''"

definition fallback_warning_message :: "string \<Rightarrow> string" where
  "fallback_warning_message spacy_model_name =
     ''SpaCy model is not properly configured! Please add a `model` property to `SpacyNLP`. ''
     @ ''Will use '' @ apostrophe @ spacy_model_name @ apostrophe @ '' as a fallback spaCy model. ''
     @ ''This fallback will be deprecated in Rasa 3.0''"

text \<open>The body of \<^verbatim>\<open>if not spacy_model_name:\<close>, lines 105 to 140.\<close>

definition fallback_model :: "constants \<Rightarrow> string \<Rightarrow> bool \<Rightarrow> event list \<times> (error + string)" where
  "fallback_model c language_name warn =
     (case map_of fallback_mapping language_name of
        None \<Rightarrow> ([], Inl (InvalidModelError (no_fallback_message c language_name)))
      | Some spacy_model_name \<Rightarrow>
          (if warn
           then [DeprecationWarning (fallback_warning_message spacy_model_name)
                   (DOCS_URL_COMPONENTS c @ ''#spacynlp'')]
           else [],
           Inr spacy_model_name))"

text \<open>\<^verbatim>\<open>_check_model_fallback\<close>. \<^verbatim>\<open>not spacy_model_name\<close> holds of \<^verbatim>\<open>None\<close> and of \<^verbatim>\<open>""\<close>.\<close>

definition check_model_fallback ::
  "constants \<Rightarrow> string option \<Rightarrow> string \<Rightarrow> bool \<Rightarrow> event list \<times> (error + string)" where
  "check_model_fallback c spacy_model_name language_name warn =
     (case spacy_model_name of
        None \<Rightarrow> fallback_model c language_name warn
      | Some name \<Rightarrow>
          (if name = [] then fallback_model c language_name warn else ([], Inr name)))"

subsection \<open>The provider, documents and messages\<close>

text \<open>A spaCy \<^verbatim>\<open>Doc\<close> is opaque here except for its vocabulary and its number of
  tokens; \<^verbatim>\<open>Doc(vocab)\<close> is the document with no tokens.\<close>

datatype 'v doc = Doc (doc_vocab: 'v) (tokens: "py_str list")

text \<open>A loaded spaCy \<^verbatim>\<open>Language\<close>: \<^verbatim>\<open>nlp(text)\<close>, \<^verbatim>\<open>nlp.pipe(texts, batch_size)\<close>,
  \<^verbatim>\<open>nlp.vocab\<close>, \<^verbatim>\<open>nlp.path\<close> and \<^verbatim>\<open>nlp.lang\<close>. The two calls are functions of their
  arguments: the provider is read-only.\<close>

record 'v Language =
  call :: "py_str \<Rightarrow> 'v doc"
  pipe :: "py_str list \<Rightarrow> nat \<Rightarrow> 'v doc list"
  vocab :: 'v
  path :: "string option"
  lang :: string

text \<open>What \<^verbatim>\<open>spacy.load(name, disable=[...])\<close> does: it returns a handle (possibly
  \<^verbatim>\<open>None\<close>) or raises.\<close>

datatype 'v load_result = Returns "'v Language option" | Raises error

text \<open>A value held under a position or attached to a message: a text or a document.
  \<^verbatim>\<open>len\<close> is Python's on both.\<close>

datatype 'v item = Text py_str | SpacyDoc "'v doc"

fun len :: "'v item \<Rightarrow> nat" where
  "len (Text s) = length s"
| "len (SpacyDoc d) = length (tokens d)"

text \<open>\<^verbatim>\<open>Message\<close> is the host's: \<^verbatim>\<open>get\<close> reads a dense featurizable attribute, a text
  or \<^verbatim>\<open>None\<close>; \<^verbatim>\<open>set\<close> stores a value under a name of \<^verbatim>\<open>SPACY_DOCS\<close>.\<close>

record 'v Message =
  text_data :: "string \<rightharpoonup> py_str"
  doc_data :: "string \<rightharpoonup> 'v item"

definition message_get :: "'v Message \<Rightarrow> string \<Rightarrow> py_str option" where
  "message_get message prop = text_data message prop"

definition message_set :: "'v Message \<Rightarrow> string \<Rightarrow> 'v item \<Rightarrow> 'v Message" where
  "message_set message prop info = message\<lparr>doc_data := (doc_data message)(prop \<mapsto> info)\<rparr>"

text \<open>The component: \<^verbatim>\<open>self.component_config\<close> and \<^verbatim>\<open>self.nlp\<close> (\<^verbatim>\<open>None\<close> by default).
  The constructor keeps \<^verbatim>\<open>nlp\<close> and hands the configuration to \<^verbatim>\<open>Component.__init__\<close>,
  which is not in this file: what that stores as \<^verbatim>\<open>component_config\<close> is the parameter
  \<open>component_init\<close>.\<close>

record 'v SpacyNLP =
  component_config :: config
  nlp :: "'v Language option"

definition defaults :: config where
  "defaults = \<lparr>model = None, case_sensitive = Some False\<rparr>"

definition cls :: "(config \<Rightarrow> config) \<Rightarrow> config \<Rightarrow> 'v Language option \<Rightarrow> 'v SpacyNLP" where
  "cls component_init cfg provider = \<lparr>component_config = component_init cfg, nlp = provider\<rparr>"

subsection \<open>Loading and validating the provider\<close>

definition model_missing_message :: "constants \<Rightarrow> string \<Rightarrow> string" where
  "model_missing_message c spacy_model_name =
     ''Please confirm that '' @ spacy_model_name @ '' is an available spaCy model. ''
     @ ''You need to download one upfront. For example:'' @ newline
     @ ''python -m spacy download en_core_web_md'' @ newline
     @ ''More informaton can be found on '' @ DOCS_URL_COMPONENTS c @ ''#spacynlp''"

definition load_model ::
  "constants \<Rightarrow> (string \<Rightarrow> string list \<Rightarrow> 'v load_result) \<Rightarrow> string
     \<Rightarrow> event list \<times> (error + 'v Language option)" where
  "load_model c spacy_load spacy_model_name =
     ([SpacyLoad spacy_model_name [''parser'']],
      case spacy_load spacy_model_name [''parser''] of
        Returns provider \<Rightarrow> Inr provider
      | Raises (OSError m) \<Rightarrow> Inl (InvalidModelError (model_missing_message c spacy_model_name))
      | Raises e \<Rightarrow> Inl e)"

definition null_provider_message :: string where
  "null_provider_message =
     ''Failed to load spacy language model. '' @ ''Loading the model returned '' @ apostrophe
     @ ''None'' @ apostrophe @ ''.''"

definition stub_provider_message :: "string \<Rightarrow> string" where
  "stub_provider_message l =
     ''Failed to load spacy language model for '' @ ''lang '' @ apostrophe @ l @ apostrophe
     @ ''. Make sure you have downloaded the ''
     @ ''correct model (https://spacy.io/docs/usage/).''"

definition ensure_proper_language_model :: "'v Language option \<Rightarrow> error + unit" where
  "ensure_proper_language_model provider =
     (case provider of
        None \<Rightarrow> Inl (Exception null_provider_message)
      | Some handle \<Rightarrow>
          (case path handle of
             None \<Rightarrow> Inl (Exception (stub_provider_message (lang handle)))
           | Some p \<Rightarrow> Inr ()))"

text \<open>\<^verbatim>\<open>create\<close>; \<^verbatim>\<open>override_defaults\<close> of \<^verbatim>\<open>rasa.utils.train_utils\<close> is a parameter.\<close>

definition create ::
  "constants \<Rightarrow> (config \<Rightarrow> config \<Rightarrow> config) \<Rightarrow> (config \<Rightarrow> config)
     \<Rightarrow> (string \<Rightarrow> string list \<Rightarrow> 'v load_result)
     \<Rightarrow> config \<Rightarrow> metadata \<Rightarrow> event list \<times> (error + 'v SpacyNLP)" where
  "create c override_defaults component_init spacy_load cfg rasa_config =
     (let cfg = override_defaults defaults cfg in
      case check_model_fallback c (model cfg) (language rasa_config) True of
        (ev1, Inl e) \<Rightarrow> (ev1, Inl e)
      | (ev1, Inr spacy_model_name) \<Rightarrow>
          (let ev2 = [LoggerInfo (''Trying to load spacy model with name '' @ apostrophe
                        @ spacy_model_name @ apostrophe)] in
           case load_model c spacy_load spacy_model_name of
             (ev3, Inl e) \<Rightarrow> (ev1 @ ev2 @ ev3, Inl e)
           | (ev3, Inr provider) \<Rightarrow>
               (case ensure_proper_language_model provider of
                  Inl e \<Rightarrow> (ev1 @ ev2 @ ev3, Inl e)
                | Inr ok \<Rightarrow> (ev1 @ ev2 @ ev3, Inr (cls component_init cfg provider)))))"

text \<open>\<^verbatim>\<open>cache_key\<close>; \<^verbatim>\<open>cls.name\<close> comes from the \<^verbatim>\<open>Component\<close> base class and is a
  parameter.\<close>

definition cache_key ::
  "constants \<Rightarrow> string \<Rightarrow> config \<Rightarrow> metadata \<Rightarrow> event list \<times> (error + string)" where
  "cache_key c name component_meta model_metadata =
     (case check_model_fallback c (model component_meta) (language model_metadata) False of
        (ev, Inl e) \<Rightarrow> (ev, Inl e)
      | (ev, Inr spacy_model_name) \<Rightarrow> (ev, Inr (name @ ''-'' @ spacy_model_name)))"

text \<open>\<^verbatim>\<open>load\<close>. A component object is truthy, so \<^verbatim>\<open>if cached_component:\<close> asks whether
  one was passed. \<^verbatim>\<open>model_metadata\<close> is \<^verbatim>\<open>None\<close> by default, and reading \<^verbatim>\<open>.language\<close> of
  \<^verbatim>\<open>None\<close> raises.\<close>

definition load ::
  "constants \<Rightarrow> (config \<Rightarrow> config) \<Rightarrow> (string \<Rightarrow> string list \<Rightarrow> 'v load_result) \<Rightarrow> config
     \<Rightarrow> string option \<Rightarrow> metadata option \<Rightarrow> 'v SpacyNLP option
     \<Rightarrow> event list \<times> (error + 'v SpacyNLP)" where
  "load c component_init spacy_load meta model_dir model_metadata cached_component =
     (case cached_component of
        Some component \<Rightarrow> ([], Inr component)
      | None \<Rightarrow>
          (case model_metadata of
             None \<Rightarrow> ([], Inl (AttributeError ''language''))
           | Some md \<Rightarrow>
               (case check_model_fallback c (model meta) (language md) True of
                  (ev1, Inl e) \<Rightarrow> (ev1, Inl e)
                | (ev1, Inr model_name) \<Rightarrow>
                    (case load_model c spacy_load model_name of
                       (ev2, Inl e) \<Rightarrow> (ev1 @ ev2, Inl e)
                     | (ev2, Inr provider) \<Rightarrow>
                         (case ensure_proper_language_model provider of
                            Inl e \<Rightarrow> (ev1 @ ev2, Inl e)
                          | Inr ok \<Rightarrow> (ev1 @ ev2, Inr (cls component_init meta provider)))))))"

subsection \<open>Text normalisation\<close>

text \<open>\<^verbatim>\<open>str.lower\<close> is the interpreter's. CPython goes through the code points of the
  text: \<^verbatim>\<open>U+03A3\<close>, the capital sigma, becomes the final small sigma \<^verbatim>\<open>U+03C2\<close> when a cased
  code point stands before it and none after it, code points that are case ignorable being
  skipped on both sides, and the small sigma \<^verbatim>\<open>U+03C3\<close> otherwise; every other code point
  becomes what the full lower-case mapping of the Unicode character database gives for it,
  which can be more than one code point. The mapping of an ASCII code point is written out;
  the rest of the database (\<^verbatim>\<open>_PyUnicode_ToLowerFull\<close>, \<^verbatim>\<open>_PyUnicode_IsCased\<close>,
  \<^verbatim>\<open>_PyUnicode_IsCaseIgnorable\<close>) is a parameter.\<close>

record unicode =
  to_lower_full :: "nat \<Rightarrow> py_str"
  is_cased :: "nat \<Rightarrow> bool"
  is_case_ignorable :: "nat \<Rightarrow> bool"

definition handle_capital_sigma :: "unicode \<Rightarrow> py_str \<Rightarrow> py_str \<Rightarrow> nat" where
  "handle_capital_sigma u preceding following =
     (let final_sigma =
            (case dropWhile (is_case_ignorable u) (rev preceding) of
               [] \<Rightarrow> False
             | ch # rest \<Rightarrow> is_cased u ch);
          final_sigma =
            (final_sigma \<and>
             (case dropWhile (is_case_ignorable u) following of
                [] \<Rightarrow> True
              | ch # rest \<Rightarrow> \<not> is_cased u ch))
      in if final_sigma then 0x3C2 else 0x3C3)"

definition lower_ucs4 :: "unicode \<Rightarrow> py_str \<Rightarrow> nat \<Rightarrow> py_str \<Rightarrow> py_str" where
  "lower_ucs4 u preceding ch following =
     (if ch = 0x3A3 then [handle_capital_sigma u preceding following]
      else if ch < 128 then [if 65 \<le> ch \<and> ch \<le> 90 then ch + 32 else ch]
      else to_lower_full u ch)"

fun do_lower :: "unicode \<Rightarrow> py_str \<Rightarrow> py_str \<Rightarrow> py_str" where
  "do_lower u preceding [] = []"
| "do_lower u preceding (ch # following) =
     lower_ucs4 u preceding ch following @ do_lower u (preceding @ [ch]) following"

definition lower :: "unicode \<Rightarrow> py_str \<Rightarrow> py_str" where
  "lower u s = do_lower u [] s"

definition preprocess_text :: "'v SpacyNLP \<Rightarrow> unicode \<Rightarrow> py_str option \<Rightarrow> py_str" where
  "preprocess_text self u raw =
     (let raw = (case raw of None \<Rightarrow> [] | Some t \<Rightarrow> t) in
      if case_sensitive (component_config self) = Some True then raw else lower u raw)"

definition get_text :: "'v SpacyNLP \<Rightarrow> unicode \<Rightarrow> 'v Message \<Rightarrow> string \<Rightarrow> py_str" where
  "get_text self u example attribute = preprocess_text self u (message_get example attribute)"

text \<open>\<^verbatim>\<open>doc_for_text\<close>: \<^verbatim>\<open>self.nlp(...)\<close> with \<^verbatim>\<open>self.nlp\<close> being \<^verbatim>\<open>None\<close> is a call of
  \<^verbatim>\<open>None\<close>.\<close>

definition doc_for_text :: "'v SpacyNLP \<Rightarrow> unicode \<Rightarrow> py_str \<Rightarrow> event list \<times> (error + 'v doc)" where
  "doc_for_text self u raw =
     (let normalised = preprocess_text self u (Some raw) in
      case nlp self of
        None \<Rightarrow> ([], Inl (TypeError ''NoneType''))
      | Some provider \<Rightarrow> ([NlpCall normalised], Inr (call provider normalised)))"

subsection \<open>The batch pipeline\<close>

text \<open>A Python \<^verbatim>\<open>dict\<close> keeps its keys in insertion order and a later value for a key
  replaces the earlier one in place: an association list under \<^const>\<open>AList.update\<close>.\<close>

definition dict_update :: "('k \<times> 'a) list \<Rightarrow> ('k \<times> 'a) list \<Rightarrow> ('k \<times> 'a) list" where
  "dict_update dct pairs = foldl (\<lambda>d (k, v). AList.update k v d) dct pairs"

definition dict :: "('k \<times> 'a) list \<Rightarrow> ('k \<times> 'a) list" where
  "dict pairs = dict_update [] pairs"

text \<open>\<^verbatim>\<open>sorted(dct.items())\<close>: the keys of a dict are distinct, so the order of the pairs
  is the order of their keys.\<close>

definition merge_content_lists ::
  "(int \<times> py_str) list \<Rightarrow> (int \<times> 'v doc) list \<Rightarrow> (int \<times> 'v item) list" where
  "merge_content_lists indexed_training_samples doc_lists =
     (let dct = dict (map (\<lambda>(idx, text). (idx, Text text)) indexed_training_samples);
          dct = dict_update dct (dict (map (\<lambda>(idx, d). (idx, SpacyDoc d)) doc_lists))
      in sort_key fst dct)"

definition filter_training_samples_by_content ::
  "(int \<times> py_str) list \<Rightarrow> (int \<times> py_str) list \<times> (int \<times> py_str) list" where
  "filter_training_samples_by_content indexed_training_samples =
     (let docs_to_pipe = filter (\<lambda>training_sample. snd training_sample \<noteq> []) indexed_training_samples;
          empty_docs = filter (\<lambda>training_sample. snd training_sample = []) indexed_training_samples
      in (docs_to_pipe, empty_docs))"

definition process_content_bearing_samples ::
  "'v SpacyNLP \<Rightarrow> (int \<times> py_str) list \<Rightarrow> event list \<times> (error + (int \<times> 'v doc) list)" where
  "process_content_bearing_samples self samples_to_pipe =
     (case nlp self of
        None \<Rightarrow> ([], Inl (AttributeError ''pipe''))
      | Some provider \<Rightarrow>
          (let texts = map snd samples_to_pipe in
           ([PipeCall texts 50],
            Inr (map (\<lambda>(to_pipe_sample, d). (fst to_pipe_sample, d))
                   (zip samples_to_pipe (pipe provider texts 50))))))"

text \<open>\<^verbatim>\<open>self.nlp.vocab\<close> is read once for each empty sample, so not at all when there is
  none.\<close>

definition process_non_content_bearing_samples ::
  "'v SpacyNLP \<Rightarrow> (int \<times> py_str) list \<Rightarrow> error + (int \<times> 'v doc) list" where
  "process_non_content_bearing_samples self empty_samples =
     (if empty_samples = [] then Inr []
      else case nlp self of
        None \<Rightarrow> Inl (AttributeError ''vocab'')
      | Some provider \<Rightarrow>
          Inr (map (\<lambda>(empty_sample, d). (fst empty_sample, d))
                 (zip empty_samples (map (\<lambda>d. Doc (vocab provider) []) empty_samples))))"

text \<open>Lines 246 to 259 of \<^verbatim>\<open>docs_for_training_data\<close>: from the indexed samples of one
  attribute to its \<^verbatim>\<open>attribute_document_list\<close>.\<close>

definition attribute_document_list ::
  "'v SpacyNLP \<Rightarrow> (int \<times> py_str) list \<Rightarrow> event list \<times> (error + (int \<times> 'v item) list)" where
  "attribute_document_list self indexed_training_samples =
     (case filter_training_samples_by_content indexed_training_samples of
        (samples_to_pipe, empty_samples) \<Rightarrow>
          (case process_content_bearing_samples self samples_to_pipe of
             (ev, Inl e) \<Rightarrow> (ev, Inl e)
           | (ev, Inr content_bearing_docs) \<Rightarrow>
               (case process_non_content_bearing_samples self empty_samples of
                  Inl e \<Rightarrow> (ev, Inl e)
                | Inr non_content_bearing_docs \<Rightarrow>
                    (ev, Inr (merge_content_lists indexed_training_samples
                                (content_bearing_docs @ non_content_bearing_docs))))))"

fun enumerate_from :: "int \<Rightarrow> 'a list \<Rightarrow> (int \<times> 'a) list" where
  "enumerate_from idx [] = []"
| "enumerate_from idx (x # xs) = (idx, x) # enumerate_from (idx + 1) xs"

text \<open>Lines 239 to 244: the normalised texts of the examples for one attribute, with
  their indices.\<close>

definition attribute_samples ::
  "'v SpacyNLP \<Rightarrow> unicode \<Rightarrow> 'v Message list \<Rightarrow> string \<Rightarrow> (int \<times> py_str) list" where
  "attribute_samples self u training_examples attribute =
     (let texts = map (\<lambda>e. get_text self u e attribute) training_examples
      in enumerate_from 0 texts)"

text \<open>The loop of \<^verbatim>\<open>docs_for_training_data\<close> over the attributes, with the dict
  \<^verbatim>\<open>attribute_docs\<close> it fills.\<close>

fun docs_for_attributes ::
  "'v SpacyNLP \<Rightarrow> unicode \<Rightarrow> 'v Message list \<Rightarrow> string list \<Rightarrow> (string \<rightharpoonup> 'v item list)
     \<Rightarrow> event list \<times> (error + (string \<rightharpoonup> 'v item list))" where
  "docs_for_attributes self u training_examples [] attribute_docs = ([], Inr attribute_docs)"
| "docs_for_attributes self u training_examples (attribute # attributes) attribute_docs =
     (let indexed_training_samples = attribute_samples self u training_examples attribute
      in case attribute_document_list self indexed_training_samples of
           (ev, Inl e) \<Rightarrow> (ev, Inl e)
         | (ev, Inr document_list) \<Rightarrow>
             (case docs_for_attributes self u training_examples attributes
                     (attribute_docs(attribute \<mapsto> map snd document_list)) of
                (ev', r) \<Rightarrow> (ev @ ev', r)))"

definition docs_for_training_data ::
  "'v SpacyNLP \<Rightarrow> unicode \<Rightarrow> constants \<Rightarrow> 'v Message list
     \<Rightarrow> event list \<times> (error + (string \<rightharpoonup> 'v item list))" where
  "docs_for_training_data self u c training_examples =
     docs_for_attributes self u training_examples (DENSE_FEATURIZABLE_ATTRIBUTES c) Map.empty"

subsection \<open>Training and inference\<close>

text \<open>The inner loop of \<^verbatim>\<open>train\<close> over \<^verbatim>\<open>enumerate(training_examples)\<close>, from index
  \<open>idx\<close> on; the two subscripts raise where Python's do.\<close>

fun train_examples ::
  "constants \<Rightarrow> (string \<rightharpoonup> 'v item list) \<Rightarrow> string \<Rightarrow> nat \<Rightarrow> 'v Message list
     \<Rightarrow> error + 'v Message list" where
  "train_examples c attribute_docs attribute idx [] = Inr []"
| "train_examples c attribute_docs attribute idx (example # examples) =
     (case attribute_docs attribute of
        None \<Rightarrow> Inl (KeyError attribute)
      | Some docs \<Rightarrow>
          (if idx < length docs then
             (let example_attribute_doc = docs ! idx;
                  example = (if len example_attribute_doc \<noteq> 0
                             then message_set example (SPACY_DOCS c attribute) example_attribute_doc
                             else example)
              in case train_examples c attribute_docs attribute (idx + 1) examples of
                   Inl e \<Rightarrow> Inl e
                 | Inr examples \<Rightarrow> Inr (example # examples))
           else Inl IndexError))"

fun train_attributes ::
  "constants \<Rightarrow> (string \<rightharpoonup> 'v item list) \<Rightarrow> string list \<Rightarrow> 'v Message list
     \<Rightarrow> error + 'v Message list" where
  "train_attributes c attribute_docs [] training_examples = Inr training_examples"
| "train_attributes c attribute_docs (attribute # attributes) training_examples =
     (case train_examples c attribute_docs attribute 0 training_examples of
        Inl e \<Rightarrow> Inl e
      | Inr training_examples \<Rightarrow> train_attributes c attribute_docs attributes training_examples)"

text \<open>\<^verbatim>\<open>train\<close> changes the examples in place; the model returns them.\<close>

definition train ::
  "'v SpacyNLP \<Rightarrow> unicode \<Rightarrow> constants \<Rightarrow> 'v Message list \<Rightarrow> event list \<times> (error + 'v Message list)" where
  "train self u c training_examples =
     (case docs_for_training_data self u c training_examples of
        (ev, Inl e) \<Rightarrow> (ev, Inl e)
      | (ev, Inr attribute_docs) \<Rightarrow>
          (ev, train_attributes c attribute_docs (DENSE_FEATURIZABLE_ATTRIBUTES c) training_examples))"

text \<open>\<^verbatim>\<open>process\<close>: \<^verbatim>\<open>if message.get(attribute)\<close> holds of a text that is neither
  \<^verbatim>\<open>None\<close> nor empty.\<close>

fun process_attributes ::
  "'v SpacyNLP \<Rightarrow> unicode \<Rightarrow> constants \<Rightarrow> string list \<Rightarrow> 'v Message
     \<Rightarrow> event list \<times> (error + 'v Message)" where
  "process_attributes self u c [] message = ([], Inr message)"
| "process_attributes self u c (attribute # attributes) message =
     (case message_get message attribute of
        None \<Rightarrow> process_attributes self u c attributes message
      | Some text \<Rightarrow>
          (if text = [] then process_attributes self u c attributes message
           else case doc_for_text self u text of
                  (ev, Inl e) \<Rightarrow> (ev, Inl e)
                | (ev, Inr d) \<Rightarrow>
                    (case process_attributes self u c attributes
                            (message_set message (SPACY_DOCS c attribute) (SpacyDoc d)) of
                       (ev', r) \<Rightarrow> (ev @ ev', r))))"

definition process :: 
  "'v SpacyNLP \<Rightarrow> unicode \<Rightarrow> constants \<Rightarrow> 'v Message \<Rightarrow> event list \<times> (error + 'v Message)" where
  "process self u c message = process_attributes self u c (DENSE_FEATURIZABLE_ATTRIBUTES c) message"

subsection \<open>Counting provider calls\<close>

text \<open>How many times \<^verbatim>\<open>nlp.pipe\<close> was invoked in a run.\<close>

fun is_pipe_call :: "event \<Rightarrow> bool" where
  "is_pipe_call (PipeCall texts batch_size) = True"
| "is_pipe_call e = False"

definition pipe_calls :: "event list \<Rightarrow> nat" where
  "pipe_calls events = length (filter is_pipe_call events)"

subsection \<open>Concrete instances\<close>

text \<open>Values of the imported constants as Rasa has them, for the concrete runs.\<close>

definition example_constants :: constants where
  "example_constants =
     \<lparr>DOCS_URL_COMPONENTS = ''https://rasa.com/docs/rasa/components'',
      DENSE_FEATURIZABLE_ATTRIBUTES = [''text'', ''response'', ''action_text''],
      SPACY_DOCS = (\<lambda>attribute. attribute @ ''_spacy_doc'')\<rparr>"

text \<open>A provider that makes one token of each word of a text, loaded from disk, and a
  component around it that folds case.\<close>

fun words_of :: "py_str \<Rightarrow> py_str \<Rightarrow> py_str list" where
  "words_of word [] = (if word = [] then [] else [word])"
| "words_of word (ch # rest) =
     (if ch = 32 then (if word = [] then [] else [word]) @ words_of [] rest
      else words_of (word @ [ch]) rest)"

definition example_provider :: "unit Language" where
  "example_provider =
     \<lparr>call = (\<lambda>raw. Doc () (words_of [] raw)),
      pipe = (\<lambda>texts batch_size. map (\<lambda>raw. Doc () (words_of [] raw)) texts),
      vocab = (),
      path = Some ''/models/en_core_web_md'',
      lang = ''en''\<rparr>"

text \<open>A \<^verbatim>\<open>Component.__init__\<close> that stores the configuration over the default of
  \<^verbatim>\<open>case_sensitive\<close>.\<close>

definition example_init :: "config \<Rightarrow> config" where
  "example_init cfg =
     (case case_sensitive cfg of
        None \<Rightarrow> cfg\<lparr>case_sensitive := Some False\<rparr>
      | Some b \<Rightarrow> cfg)"

definition example_component :: "unit SpacyNLP" where
  "example_component =
     \<lparr>component_config = \<lparr>model = None, case_sensitive = Some False\<rparr>,
      nlp = Some example_provider\<rparr>"

text \<open>A small part of the Unicode character database: the capital E with acute and its small
  letter, the capital I with dot above, whose lower case is two code points, the Greek
  capitals alpha and sigma, and the apostrophe as the one case ignorable code point.\<close>

definition example_unicode :: unicode where
  "example_unicode =
     \<lparr>to_lower_full =
        (\<lambda>ch. if ch = 0xC9 then [0xE9]
              else if ch = 0x130 then [0x69, 0x307]
              else if ch = 0x391 then [0x3B1]
              else [ch]),
      is_cased =
        (\<lambda>ch. (65 \<le> ch \<and> ch \<le> 90) \<or> (97 \<le> ch \<and> ch \<le> 122)
              \<or> ch \<in> {0xC9, 0xE9, 0x130, 0x391, 0x3B1, 0x3A3, 0x3C2, 0x3C3}),
      is_case_ignorable = (\<lambda>ch. ch = 0x27 \<or> ch = 0x307)\<rparr>"

section \<open>Properties\<close>

subsection \<open>Texts\<close>

lemma str_eq_Nil: "str s = [] \<longleftrightarrow> s = []"
  by (simp add: str_def)

subsection \<open>Model name resolution\<close>

lemma fallback_model_events_silent: "fst (fallback_model c language_name False) = []"
  by (simp add: fallback_model_def split: option.split)

lemma fallback_model_result:
  "snd (fallback_model c language_name warn) =
     (case map_of fallback_mapping language_name of
        None \<Rightarrow> Inl (InvalidModelError (no_fallback_message c language_name))
      | Some fallback \<Rightarrow> Inr fallback)"
  by (simp add: fallback_model_def split: option.split)

lemma check_model_fallback_result:
  "snd (check_model_fallback c spacy_model_name language_name warn) =
     (if spacy_model_name = None \<or> spacy_model_name = Some []
      then (case map_of fallback_mapping language_name of
              None \<Rightarrow> Inl (InvalidModelError (no_fallback_message c language_name))
            | Some fallback \<Rightarrow> Inr fallback)
      else Inr (the spacy_model_name))"
  by (cases spacy_model_name) (simp_all add: check_model_fallback_def fallback_model_result)

lemma check_model_fallback_silent:
  "fst (check_model_fallback c spacy_model_name language_name False) = []"
  by (cases spacy_model_name) (simp_all add: check_model_fallback_def fallback_model_events_silent)

text \<open>
  C3. \<^verbatim>\<open>_check_model_fallback\<close> returns an explicit model name that is present and not
  empty as it is, whatever the fallback table holds. Without such a name it returns the
  fallback table's entry for the language when there is one. It raises exactly when the name
  is absent or empty and the table has no entry for the language, and the error is the
  \<^verbatim>\<open>InvalidModelError\<close> whose message quotes the language code.
\<close>

theorem check_model_fallback_resolution:
  "(\<forall>name. spacy_model_name = Some name \<and> name \<noteq> [] \<longrightarrow>
      check_model_fallback c spacy_model_name language_name warn = ([], Inr name))
   \<and> (\<forall>fallback. (spacy_model_name = None \<or> spacy_model_name = Some []) \<and>
         map_of fallback_mapping language_name = Some fallback \<longrightarrow>
         snd (check_model_fallback c spacy_model_name language_name warn) = Inr fallback)
   \<and> ((\<exists>e. snd (check_model_fallback c spacy_model_name language_name warn) = Inl e) \<longleftrightarrow>
        (spacy_model_name = None \<or> spacy_model_name = Some []) \<and>
        map_of fallback_mapping language_name = None)
   \<and> (\<forall>e. snd (check_model_fallback c spacy_model_name language_name warn) = Inl e \<longrightarrow>
        e = InvalidModelError
              (''There is no fallback model for language '' @ apostrophe @ language_name
               @ apostrophe @ ''. ''
               @ ''Please add a `model` property to `SpacyNLP` manually to prevent this. ''
               @ ''More informaton can be found on '' @ DOCS_URL_COMPONENTS c @ ''#spacynlp''))"
proof (cases "spacy_model_name = None \<or> spacy_model_name = Some []")
  case True
  then show ?thesis
    by (auto simp: check_model_fallback_result no_fallback_message_def split: option.splits)
next
  case False
  then obtain name where n: "spacy_model_name = Some name" "name \<noteq> []"
    by (cases spacy_model_name) auto
  then show ?thesis
    by (simp add: check_model_fallback_def)
qed

theorem check_model_fallback_resolution_witness:
  "check_model_fallback example_constants (Some ''my_model'') ''xx'' True = ([], Inr ''my_model'')
   \<and> snd (check_model_fallback example_constants None ''en'' True) = Inr ''en_core_web_md''
   \<and> snd (check_model_fallback example_constants (Some []) ''de'' False) = Inr ''de_core_news_sm''
   \<and> (\<exists>e. snd (check_model_fallback example_constants None ''xx'' False) = Inl e)"
proof -
  have en: "map_of fallback_mapping ''en'' = Some ''en_core_web_md''"
    by (simp add: fallback_mapping_def)
  have de: "map_of fallback_mapping ''de'' = Some ''de_core_news_sm''"
    by (simp add: fallback_mapping_def)
  have xx: "map_of fallback_mapping ''xx'' = None"
    by (simp add: fallback_mapping_def)
  show ?thesis
    using check_model_fallback_resolution [of "Some ''my_model''" example_constants "''xx''" True]
      check_model_fallback_resolution [of None example_constants "''en''" True]
      check_model_fallback_resolution [of "Some []" example_constants "''de''" False]
      check_model_fallback_resolution [of None example_constants "''xx''" False]
      en de xx
    by simp
qed

subsection \<open>The cache key\<close>

lemma cache_key_events: "fst (cache_key c name component_meta model_metadata) = []"
proof -
  obtain ev r where cmf:
    "check_model_fallback c (model component_meta) (language model_metadata) False = (ev, r)"
    by (cases "check_model_fallback c (model component_meta) (language model_metadata) False")
  then have "ev = []"
    using check_model_fallback_silent [of c "model component_meta" "language model_metadata"]
    by simp
  with cmf show ?thesis
    by (simp add: cache_key_def split: sum.split)
qed

lemma cache_key_result:
  "snd (cache_key c name component_meta model_metadata) =
     (case snd (check_model_fallback c (model component_meta) (language model_metadata) False) of
        Inl e \<Rightarrow> Inl e
      | Inr spacy_model_name \<Rightarrow> Inr (name @ ''-'' @ spacy_model_name))"
  by (simp add: cache_key_def split: prod.split sum.split)

text \<open>
  C4. When resolution succeeds, \<^verbatim>\<open>cache_key\<close> returns the component's name, a hyphen and
  the resolved model name. The keys of two configurations that both resolve are equal exactly
  when the resolved names are equal. Resolution is called with \<^verbatim>\<open>warn=False\<close>, so
  \<^verbatim>\<open>cache_key\<close> emits no event at all, in particular no fallback warning. When resolution
  fails, \<^verbatim>\<open>cache_key\<close> fails with the same error.
\<close>

theorem cache_key_contract:
  "(\<forall>resolved. snd (check_model_fallback c (model component_meta) (language model_metadata) False)
        = Inr resolved \<longrightarrow>
      cache_key c name component_meta model_metadata = ([], Inr (name @ ''-'' @ resolved)))
   \<and> (\<forall>resolved resolved'.
        snd (check_model_fallback c (model component_meta) (language model_metadata) False)
          = Inr resolved \<and>
        snd (check_model_fallback c (model component_meta') (language model_metadata') False)
          = Inr resolved' \<longrightarrow>
        (cache_key c name component_meta model_metadata
           = cache_key c name component_meta' model_metadata'
         \<longleftrightarrow> resolved = resolved'))
   \<and> fst (cache_key c name component_meta model_metadata) = []
   \<and> (\<forall>e. snd (check_model_fallback c (model component_meta) (language model_metadata) False)
        = Inl e \<longrightarrow>
      cache_key c name component_meta model_metadata = ([], Inl e))"
proof -
  have key: "cache_key c name m md = ([], snd (cache_key c name m md))" for m md
    using cache_key_events [of c name m md] by (cases "cache_key c name m md") simp
  show ?thesis
  proof (intro conjI allI impI)
    fix resolved
    assume "snd (check_model_fallback c (model component_meta) (language model_metadata) False)
              = Inr resolved"
    then show "cache_key c name component_meta model_metadata = ([], Inr (name @ ''-'' @ resolved))"
      using key [of component_meta model_metadata] by (simp add: cache_key_result)
  next
    fix resolved resolved'
    assume "snd (check_model_fallback c (model component_meta) (language model_metadata) False)
              = Inr resolved \<and>
            snd (check_model_fallback c (model component_meta') (language model_metadata') False)
              = Inr resolved'"
    then have "snd (cache_key c name component_meta model_metadata) = Inr (name @ ''-'' @ resolved)"
      and "snd (cache_key c name component_meta' model_metadata') = Inr (name @ ''-'' @ resolved')"
      by (simp_all add: cache_key_result)
    then show "cache_key c name component_meta model_metadata
                 = cache_key c name component_meta' model_metadata'
               \<longleftrightarrow> resolved = resolved'"
      using key [of component_meta model_metadata] key [of component_meta' model_metadata']
      by auto
  next
    show "fst (cache_key c name component_meta model_metadata) = []"
      by (rule cache_key_events)
  next
    fix e
    assume "snd (check_model_fallback c (model component_meta) (language model_metadata) False)
              = Inl e"
    then show "cache_key c name component_meta model_metadata = ([], Inl e)"
      using key [of component_meta model_metadata] by (simp add: cache_key_result)
  qed
qed

theorem cache_key_contract_witness:
  "cache_key example_constants ''SpacyNLP'' \<lparr>model = None, case_sensitive = None\<rparr>
       \<lparr>language = ''en''\<rparr>
     = ([], Inr ''SpacyNLP-en_core_web_md'')
   \<and> cache_key example_constants ''SpacyNLP'' \<lparr>model = None, case_sensitive = None\<rparr>
       \<lparr>language = ''en''\<rparr>
     = cache_key example_constants ''SpacyNLP''
         \<lparr>model = Some ''en_core_web_md'', case_sensitive = Some True\<rparr> \<lparr>language = ''de''\<rparr>
   \<and> cache_key example_constants ''SpacyNLP'' \<lparr>model = None, case_sensitive = None\<rparr>
       \<lparr>language = ''en''\<rparr>
     \<noteq> cache_key example_constants ''SpacyNLP'' \<lparr>model = None, case_sensitive = None\<rparr>
         \<lparr>language = ''de''\<rparr>
   \<and> cache_key example_constants ''SpacyNLP'' \<lparr>model = Some [], case_sensitive = None\<rparr>
       \<lparr>language = ''xx''\<rparr>
     = ([], Inl (InvalidModelError (no_fallback_message example_constants ''xx'')))"
proof -
  let ?unset = "\<lparr>model = None, case_sensitive = None\<rparr>"
  let ?explicit = "\<lparr>model = Some ''en_core_web_md'', case_sensitive = Some True\<rparr>"
  let ?empty = "\<lparr>model = Some [], case_sensitive = None\<rparr>"
  let ?en = "\<lparr>language = ''en''\<rparr>"
  let ?de = "\<lparr>language = ''de''\<rparr>"
  let ?xx = "\<lparr>language = ''xx''\<rparr>"
  have en: "snd (check_model_fallback example_constants (model ?unset) (language ?en) False)
              = Inr ''en_core_web_md''"
    by (simp add: check_model_fallback_result fallback_mapping_def)
  have de: "snd (check_model_fallback example_constants (model ?unset) (language ?de) False)
              = Inr ''de_core_news_sm''"
    by (simp add: check_model_fallback_result fallback_mapping_def)
  have ex: "snd (check_model_fallback example_constants (model ?explicit) (language ?de) False)
              = Inr ''en_core_web_md''"
    by (simp add: check_model_fallback_result)
  have xx: "snd (check_model_fallback example_constants (model ?empty) (language ?xx) False)
              = Inl (InvalidModelError (no_fallback_message example_constants ''xx''))"
    by (simp add: check_model_fallback_result fallback_mapping_def)
  note en_vs_explicit = cache_key_contract [of example_constants ?unset ?en "''SpacyNLP''"
        ?explicit ?de]
  note en_vs_de = cache_key_contract [of example_constants ?unset ?en "''SpacyNLP''" ?unset ?de]
  note unmapped = cache_key_contract [of example_constants ?empty ?xx "''SpacyNLP''"]
  have "cache_key example_constants ''SpacyNLP'' ?unset ?en = ([], Inr ''SpacyNLP-en_core_web_md'')"
    using en_vs_explicit [THEN conjunct1, rule_format, OF en] by simp
  moreover have "cache_key example_constants ''SpacyNLP'' ?unset ?en
        = cache_key example_constants ''SpacyNLP'' ?explicit ?de"
    using en_vs_explicit [THEN conjunct2, THEN conjunct1, rule_format, OF conjI, OF en ex]
    by simp
  moreover have "cache_key example_constants ''SpacyNLP'' ?unset ?en
        \<noteq> cache_key example_constants ''SpacyNLP'' ?unset ?de"
    using en_vs_de [THEN conjunct2, THEN conjunct1, rule_format, OF conjI, OF en de]
    by simp
  moreover have "cache_key example_constants ''SpacyNLP'' ?empty ?xx
        = ([], Inl (InvalidModelError (no_fallback_message example_constants ''xx'')))"
    using unmapped [THEN conjunct2, THEN conjunct2, THEN conjunct2, rule_format, OF xx] by simp
  ultimately show ?thesis
    by blast
qed

subsection \<open>Validation of the loaded provider\<close>

lemma null_provider_message_not_stub: "null_provider_message \<noteq> stub_provider_message l"
  by (simp add: null_provider_message_def stub_provider_message_def)

lemma stub_provider_message_inject:
  "stub_provider_message l = stub_provider_message l' \<longleftrightarrow> l = l'"
  by (simp add: stub_provider_message_def)

lemma load_after_spacy_load:
  assumes "check_model_fallback c (model meta) (language md) True = (ev, Inr model_name)"
    and "spacy_load model_name [''parser''] = Returns provider"
  shows "load c component_init spacy_load meta model_dir (Some md) None =
           (ev @ [SpacyLoad model_name [''parser'']],
            case ensure_proper_language_model provider of
              Inl e \<Rightarrow> Inl e
            | Inr u \<Rightarrow> Inr (cls component_init meta provider))"
  using assms by (simp add: load_def load_model_def split: sum.split)

text \<open>
  C6. \<^verbatim>\<open>ensure_proper_language_model\<close> raises the exception that says loading returned
  \<^verbatim>\<open>None\<close> exactly when the handle is \<^verbatim>\<open>None\<close>, and the exception that names the
  handle's language as an unusable stub exactly when the handle is there and its \<^verbatim>\<open>path\<close> is
  \<^verbatim>\<open>None\<close>. In every other case it returns, and \<^verbatim>\<open>load\<close>, once \<^verbatim>\<open>spacy.load\<close> has
  returned the handle, builds the component around that same handle.
\<close>

theorem ensure_proper_language_model_cases:
  "(ensure_proper_language_model provider = Inl (Exception null_provider_message)
      \<longleftrightarrow> provider = None)
   \<and> ((\<exists>l. ensure_proper_language_model provider = Inl (Exception (stub_provider_message l)))
      \<longleftrightarrow> (\<exists>handle. provider = Some handle \<and> path handle = None))
   \<and> (\<forall>handle. provider = Some handle \<and> path handle = None \<longrightarrow>
        ensure_proper_language_model provider
          = Inl (Exception (stub_provider_message (lang handle))))
   \<and> (ensure_proper_language_model provider = Inr ()
      \<longleftrightarrow> (\<exists>handle p. provider = Some handle \<and> path handle = Some p))
   \<and> (\<forall>ev model_name handle p.
        check_model_fallback c (model meta) (language md) True = (ev, Inr model_name) \<and>
        spacy_load model_name [''parser''] = Returns provider \<and>
        provider = Some handle \<and> path handle = Some p \<longrightarrow>
        snd (load c component_init spacy_load meta model_dir (Some md) None)
          = Inr \<lparr>component_config = component_init meta, nlp = Some handle\<rparr>)"
proof (cases provider)
  case None
  then show ?thesis
    using null_provider_message_not_stub
    by (simp add: ensure_proper_language_model_def)
next
  case (Some handle)
  show ?thesis
  proof (cases "path handle")
    case None
    with Some show ?thesis
      using null_provider_message_not_stub [of "lang handle"]
      by (auto simp: ensure_proper_language_model_def)
  next
    case p: (Some p)
    have "snd (load c component_init spacy_load meta model_dir (Some md) None)
            = Inr \<lparr>component_config = component_init meta, nlp = Some handle\<rparr>"
      if "check_model_fallback c (model meta) (language md) True = (ev, Inr model_name)"
        and "spacy_load model_name [''parser''] = Returns provider" for ev model_name
      using that load_after_spacy_load [of c meta md ev model_name spacy_load provider component_init
          model_dir]
        Some p
      by (simp add: ensure_proper_language_model_def cls_def)
    with Some p show ?thesis
      by (auto simp: ensure_proper_language_model_def)
  qed
qed

theorem ensure_proper_language_model_cases_witness:
  "ensure_proper_language_model (None :: unit Language option)
     = Inl (Exception null_provider_message)
   \<and> ensure_proper_language_model (Some (example_provider\<lparr>path := None\<rparr>))
     = Inl (Exception (stub_provider_message ''en''))
   \<and> ensure_proper_language_model (Some example_provider) = Inr ()
   \<and> snd (load example_constants example_init (\<lambda>name disable. Returns (Some example_provider))
            \<lparr>model = None, case_sensitive = None\<rparr> None (Some \<lparr>language = ''en''\<rparr>) None)
     = Inr \<lparr>component_config = \<lparr>model = None, case_sensitive = Some False\<rparr>,
            nlp = Some example_provider\<rparr>"
proof -
  let ?meta = "\<lparr>model = None, case_sensitive = None\<rparr>"
  let ?md = "\<lparr>language = ''en''\<rparr>"
  let ?load = "\<lambda>name disable :: string list. Returns (Some example_provider)"
  have en: "check_model_fallback example_constants (model ?meta) (language ?md) True
              = (fst (check_model_fallback example_constants (model ?meta) (language ?md) True),
                 Inr ''en_core_web_md'')"
    using check_model_fallback_result [of example_constants "model ?meta" "language ?md" True]
    by (simp add: fallback_mapping_def prod_eq_iff)
  have p: "path example_provider = Some ''/models/en_core_web_md''"
    by (simp add: example_provider_def)
  note none = ensure_proper_language_model_cases [of "None :: unit Language option"]
  note stub = ensure_proper_language_model_cases [of "Some (example_provider\<lparr>path := None\<rparr>)"]
  note real = ensure_proper_language_model_cases [of "Some example_provider" example_constants
      ?meta ?md ?load example_init None]
  have "ensure_proper_language_model (None :: unit Language option)
          = Inl (Exception null_provider_message)"
    using none by simp
  moreover have "ensure_proper_language_model (Some (example_provider\<lparr>path := None\<rparr>))
          = Inl (Exception (stub_provider_message ''en''))"
    using stub [THEN conjunct2, THEN conjunct2, THEN conjunct1, rule_format,
        of "example_provider\<lparr>path := None\<rparr>"]
    by (simp add: example_provider_def)
  moreover have "ensure_proper_language_model (Some example_provider) = Inr ()"
    using real p by simp
  moreover have "snd (load example_constants example_init ?load ?meta None (Some ?md) None)
          = Inr \<lparr>component_config = \<lparr>model = None, case_sensitive = Some False\<rparr>,
                 nlp = Some example_provider\<rparr>"
    using real [THEN conjunct2, THEN conjunct2, THEN conjunct2, THEN conjunct2, rule_format,
        of _ "''en_core_web_md''" example_provider "''/models/en_core_web_md''"] en p
    by (simp add: example_init_def)
  ultimately show ?thesis
    by blast
qed

subsection \<open>Text normalisation\<close>

text \<open>
  C9. \<^verbatim>\<open>preprocess_text\<close> is idempotent under every configuration and for every input,
  \<^verbatim>\<open>None\<close> included: \<^verbatim>\<open>None\<close> becomes the empty string, which stays as it is;
  lower-casing a lower-cased text changes nothing; and under \<^verbatim>\<open>case_sensitive\<close> every
  text comes back unchanged. Of the Unicode character database this takes what holds of it:
  no code point of a lower-case mapping is the capital sigma or an ASCII capital, each of
  them is mapped to itself, and so are the two small sigmas.
\<close>

theorem preprocess_text_idempotent:
  assumes "\<forall>ch d. 128 \<le> ch \<and> ch \<noteq> 0x3A3 \<and> d \<in> set (to_lower_full u ch) \<longrightarrow>
             d \<noteq> 0x3A3 \<and> \<not> (65 \<le> d \<and> d \<le> 90) \<and> (128 \<le> d \<longrightarrow> to_lower_full u d = [d])"
    and "to_lower_full u 0x3C2 = [0x3C2]"
    and "to_lower_full u 0x3C3 = [0x3C3]"
  shows "preprocess_text self u (Some (preprocess_text self u raw)) = preprocess_text self u raw
   \<and> preprocess_text self u None = []
   \<and> preprocess_text self u (Some []) = []
   \<and> lower u (lower u t) = lower u t
   \<and> (case_sensitive (component_config self) = Some True \<longrightarrow> preprocess_text self u (Some t) = t)"
proof -
  define unchanged where
    "unchanged d \<longleftrightarrow>
       d \<noteq> 0x3A3 \<and> (if d < 128 then \<not> (65 \<le> d \<and> d \<le> 90) else to_lower_full u d = [d])" for d
  have sigma: "unchanged (handle_capital_sigma u preceding following)" for preceding following
    using assms(2,3) by (simp add: handle_capital_sigma_def unchanged_def Let_def)
  have mapped: "\<forall>d \<in> set (lower_ucs4 u preceding ch following). unchanged d"
    for preceding ch following
  proof (cases "ch = 0x3A3")
    case True
    then show ?thesis
      using sigma by (simp add: lower_ucs4_def)
  next
    case False
    show ?thesis
    proof (cases "ch < 128")
      case True
      with False show ?thesis
        by (simp add: lower_ucs4_def unchanged_def)
    next
      case False
      then have large: "128 \<le> ch"
        by simp
      have "unchanged d" if "d \<in> set (to_lower_full u ch)" for d
        using assms(1) [rule_format, of ch d] large \<open>ch \<noteq> 0x3A3\<close> that
        by (simp add: unchanged_def not_less)
      with False \<open>ch \<noteq> 0x3A3\<close> show ?thesis
        by (simp add: lower_ucs4_def)
    qed
  qed
  have kept: "lower_ucs4 u preceding d following = [d]" if "unchanged d" for preceding d following
    using that by (auto simp: lower_ucs4_def unchanged_def split: if_splits)
  have lowered: "\<forall>d \<in> set (do_lower u preceding s). unchanged d" for preceding s
  proof (induction s arbitrary: preceding)
    case Nil
    show ?case by simp
  next
    case (Cons ch s)
    show ?case
      using mapped [of preceding ch s] Cons.IH [of "preceding @ [ch]"] by auto
  qed
  have same: "do_lower u preceding s = s" if "\<forall>d \<in> set s. unchanged d" for preceding s
    using that
  proof (induction s arbitrary: preceding)
    case Nil
    show ?case by simp
  next
    case (Cons ch s)
    then show ?case
      by (simp add: kept)
  qed
  have twice: "lower u (lower u s) = lower u s" for s
    unfolding lower_def by (rule same) (rule lowered)
  have empty: "lower u [] = []"
    by (simp add: lower_def)
  show ?thesis
    by (cases raw) (simp_all add: preprocess_text_def twice empty)
qed

theorem preprocess_text_idempotent_witness:
  "to_lower_full example_unicode 0x3C2 = [0x3C2]
   \<and> to_lower_full example_unicode 0x3C3 = [0x3C3]
   \<and> preprocess_text example_component example_unicode (Some [0xC9, 0x3A3, 32, 0x130, 72])
       = [0xE9, 0x3C2, 32, 0x69, 0x307, 104]
   \<and> preprocess_text example_component example_unicode
         (Some (preprocess_text example_component example_unicode
                  (Some [0xC9, 0x3A3, 32, 0x130, 72])))
       = [0xE9, 0x3C2, 32, 0x69, 0x307, 104]
   \<and> preprocess_text
         (example_component\<lparr>component_config := \<lparr>model = None, case_sensitive = Some True\<rparr>\<rparr>)
         example_unicode (Some [0xC9, 0x3A3, 32, 0x130, 72])
       = [0xC9, 0x3A3, 32, 0x130, 72]"
proof -
  let ?sensitive =
    "example_component\<lparr>component_config := \<lparr>model = None, case_sensitive = Some True\<rparr>\<rparr>"
  have images: "\<forall>ch d. 128 \<le> ch \<and> ch \<noteq> 0x3A3 \<and> d \<in> set (to_lower_full example_unicode ch) \<longrightarrow>
      d \<noteq> 0x3A3 \<and> \<not> (65 \<le> d \<and> d \<le> 90)
      \<and> (128 \<le> d \<longrightarrow> to_lower_full example_unicode d = [d])"
    by (auto simp: example_unicode_def split: if_splits)
  have final: "to_lower_full example_unicode 0x3C2 = [0x3C2]"
    and small: "to_lower_full example_unicode 0x3C3 = [0x3C3]"
    by (simp_all add: example_unicode_def)
  have first: "preprocess_text example_component example_unicode
                 (Some [0xC9, 0x3A3, 32, 0x130, 72])
               = [0xE9, 0x3C2, 32, 0x69, 0x307, 104]"
    by (simp add: preprocess_text_def example_component_def lower_def lower_ucs4_def
        handle_capital_sigma_def example_unicode_def)
  have sensitive: "case_sensitive (component_config ?sensitive) = Some True"
    by simp
  note folded = preprocess_text_idempotent [OF images final small, of example_component
      "Some [0xC9, 0x3A3, 32, 0x130, 72]", THEN conjunct1]
  note kept = preprocess_text_idempotent [OF images final small, of ?sensitive None
      "[0xC9, 0x3A3, 32, 0x130, 72]", THEN conjunct2, THEN conjunct2, THEN conjunct2,
      THEN conjunct2, THEN mp, OF sensitive]
  have second: "preprocess_text example_component example_unicode
                  (Some (preprocess_text example_component example_unicode
                           (Some [0xC9, 0x3A3, 32, 0x130, 72])))
                = [0xE9, 0x3C2, 32, 0x69, 0x307, 104]"
    using folded first by simp
  show ?thesis
    using final small first second kept by (intro conjI) assumption+
qed

subsection \<open>Loading with a cached component\<close>

text \<open>
  C10. Given a cached component, \<^verbatim>\<open>load\<close> returns it as it is and does nothing else: no
  event is emitted (no fallback warning of a resolution, no \<^verbatim>\<open>spacy.load\<close>), and neither
  the configuration, the metadata nor the loader has any influence, so the cached component
  is returned also where loading afresh would fail.
\<close>

theorem load_cached_component:
  "load c component_init spacy_load meta model_dir model_metadata (Some cached_component)
     = ([], Inr cached_component)"
  by (simp add: load_def)

theorem load_cached_component_witness:
  "load example_constants example_init (\<lambda>name disable. Raises (OSError ''not found''))
       \<lparr>model = None, case_sensitive = None\<rparr> None (Some \<lparr>language = ''xx''\<rparr>)
       (Some example_component)
     = ([], Inr example_component)
   \<and> load example_constants example_init (\<lambda>name disable. Raises (OSError ''not found''))
       \<lparr>model = None, case_sensitive = None\<rparr> None (Some \<lparr>language = ''xx''\<rparr>)
       (None :: unit SpacyNLP option)
     = ([], Inl (InvalidModelError (no_fallback_message example_constants ''xx'')))
   \<and> load example_constants example_init (\<lambda>name disable. Returns None)
       \<lparr>model = Some ''en_core_web_md'', case_sensitive = None\<rparr> None None
       (Some example_component)
     = ([], Inr example_component)"
proof -
  have "load example_constants example_init (\<lambda>name disable. Raises (OSError ''not found''))
       \<lparr>model = None, case_sensitive = None\<rparr> None (Some \<lparr>language = ''xx''\<rparr>)
       (None :: unit SpacyNLP option)
     = ([], Inl (InvalidModelError (no_fallback_message example_constants ''xx'')))"
    by (simp add: load_def check_model_fallback_def fallback_model_def fallback_mapping_def)
  then show ?thesis
    using load_cached_component [of example_constants example_init
        "\<lambda>name disable. Raises (OSError ''not found'')"
        "\<lparr>model = None, case_sensitive = None\<rparr>" None "Some \<lparr>language = ''xx''\<rparr>"
        example_component]
      load_cached_component [of example_constants example_init "\<lambda>name disable. Returns None"
        "\<lparr>model = Some ''en_core_web_md'', case_sensitive = None\<rparr>" None None
        example_component]
    by simp
qed

subsection \<open>Dictionaries and sorting\<close>

lemma dict_update_Nil: "dict_update dct [] = dct"
  by (simp add: dict_update_def)

lemma dict_update_Cons: "dict_update dct ((k, v) # pairs) = dict_update (AList.update k v dct) pairs"
  by (simp add: dict_update_def)

lemma dict_update_keys: "fst ` set (dict_update dct pairs) = fst ` set dct \<union> fst ` set pairs"
proof (induction pairs arbitrary: dct)
  case Nil
  show ?case by (simp add: dict_update_Nil)
next
  case (Cons p pairs)
  obtain k v where p: "p = (k, v)" by (cases p)
  show ?case
    unfolding p dict_update_Cons Cons.IH by (auto simp: dom_update)
qed

lemma dict_update_distinct:
  "distinct (map fst dct) \<Longrightarrow> distinct (map fst (dict_update dct pairs))"
proof (induction pairs arbitrary: dct)
  case Nil
  then show ?case by (simp add: dict_update_Nil)
next
  case (Cons p pairs)
  obtain k v where p: "p = (k, v)" by (cases p)
  show ?case
    unfolding p dict_update_Cons by (rule Cons.IH) (rule distinct_update [OF Cons.prems])
qed

lemma map_of_dict_update: "map_of (dict_update dct pairs) = map_of dct ++ map_of (rev pairs)"
proof (induction pairs arbitrary: dct)
  case Nil
  show ?case by (simp add: dict_update_Nil)
next
  case (Cons p pairs)
  obtain k v where p: "p = (k, v)" by (cases p)
  have "map_of (AList.update k v dct) ++ map_of (rev pairs)
          = map_of dct ++ (map_of [(k, v)] ++ map_of (rev pairs))"
    by (simp add: update_conv' fun_eq_iff map_add_def split: option.split)
  then show ?case
    unfolding p dict_update_Cons Cons.IH by simp
qed

lemma map_of_rev_distinct:
  assumes "distinct (map fst xs)"
  shows "map_of (rev xs) = map_of xs"
proof -
  have "distinct (map fst (rev xs))"
    using assms by (simp add: rev_map [symmetric])
  then show ?thesis
    using assms by (simp add: map_of_inject_set)
qed

lemma dict_distinct: "distinct (map fst (dict pairs))"
  by (simp add: dict_def dict_update_distinct)

lemma dict_keys: "fst ` set (dict pairs) = fst ` set pairs"
  by (simp add: dict_def dict_update_keys)

lemma map_of_dict: "map_of (dict pairs) = map_of (rev pairs)"
  by (simp add: dict_def map_of_dict_update)

lemma distinct_map_insort_key:
  "distinct (map f (insort_key f x xs)) \<longleftrightarrow> f x \<notin> f ` set xs \<and> distinct (map f xs)"
  by (induction xs) (auto simp: set_insort_key)

lemma distinct_map_sort_key: "distinct (map f (sort_key f xs)) \<longleftrightarrow> distinct (map f xs)"
  by (induction xs) (auto simp: distinct_map_insort_key)

lemma map_of_sort_key:
  assumes "distinct (map fst xs)"
  shows "map_of (sort_key fst xs) = map_of xs"
proof -
  have "distinct (map fst (sort_key fst xs))"
    using assms by (simp add: distinct_map_sort_key)
  then show ?thesis
    using assms by (simp add: map_of_inject_set)
qed

lemma keys_sort_key:
  assumes "distinct (map fst xs)" and "distinct ks" and "set ks = fst ` set xs"
  shows "map fst (sort_key fst xs) = sort ks"
proof (rule sorted_distinct_set_unique)
  show "sorted (map fst (sort_key fst xs))"
    by (rule sorted_sort_key)
  show "distinct (map fst (sort_key fst xs))"
    using assms(1) by (simp add: distinct_map_sort_key)
  show "sorted (sort ks)" by simp
  show "distinct (sort ks)" using assms(2) by simp
  show "set (map fst (sort_key fst xs)) = set (sort ks)"
    using assms(3) by simp
qed

subsection \<open>The merge\<close>

text \<open>What \<^verbatim>\<open>merge_content_lists\<close> holds under a position: the last document given for
  it, or else the last text given for it.\<close>

lemma merge_content_lists_lookup:
  "map_of (merge_content_lists indexed_training_samples doc_lists) idx =
     (case map_of (rev doc_lists) idx of
        Some d \<Rightarrow> Some (SpacyDoc d)
      | None \<Rightarrow> map_option Text (map_of (rev indexed_training_samples) idx))"
proof -
  let ?texts = "map (\<lambda>(idx, text). (idx, Text text)) indexed_training_samples"
  let ?docs = "map (\<lambda>(idx, d). (idx, SpacyDoc d)) doc_lists"
  have rev_texts: "map_of (rev ?texts) = map_option Text \<circ> map_of (rev indexed_training_samples)"
    by (simp add: rev_map map_of_map)
  have rev_docs: "map_of (rev ?docs) = map_option SpacyDoc \<circ> map_of (rev doc_lists)"
    by (simp add: rev_map map_of_map)
  have "distinct (map fst (dict_update (dict ?texts) (dict ?docs)))"
    by (rule dict_update_distinct) (rule dict_distinct)
  then have "map_of (merge_content_lists indexed_training_samples doc_lists)
               = map_of (dict_update (dict ?texts) (dict ?docs))"
    by (simp add: merge_content_lists_def map_of_sort_key)
  also have "\<dots> = map_of (rev ?texts) ++ map_of (rev ?docs)"
    by (simp add: map_of_dict_update map_of_dict map_of_rev_distinct dict_distinct)
  finally show ?thesis
    by (simp add: rev_texts rev_docs map_add_def split: option.split)
qed

lemma merge_content_lists_keys:
  assumes "distinct (map fst indexed_training_samples)"
    and "fst ` set doc_lists \<subseteq> fst ` set indexed_training_samples"
  shows "map fst (merge_content_lists indexed_training_samples doc_lists)
           = sort (map fst indexed_training_samples)"
proof -
  let ?texts = "map (\<lambda>(idx, text). (idx, Text text)) indexed_training_samples"
  let ?docs = "map (\<lambda>(idx, d). (idx, SpacyDoc d)) doc_lists"
  have texts: "fst ` set ?texts = fst ` set indexed_training_samples"
    by force
  have docs: "fst ` set ?docs = fst ` set doc_lists"
    by force
  have d: "distinct (map fst (dict_update (dict ?texts) (dict ?docs)))"
    by (rule dict_update_distinct) (rule dict_distinct)
  have s: "set (map fst indexed_training_samples)
             = fst ` set (dict_update (dict ?texts) (dict ?docs))"
    using assms(2) unfolding dict_update_keys dict_keys texts docs by auto
  show ?thesis
    unfolding merge_content_lists_def Let_def by (rule keys_sort_key [OF d assms(1) s])
qed

lemma merge_content_lists_distinct:
  "distinct (map fst (merge_content_lists indexed_training_samples doc_lists))"
  unfolding merge_content_lists_def Let_def distinct_map_sort_key
  by (rule dict_update_distinct) (rule dict_distinct)

subsection \<open>The batch pipeline\<close>

lemma process_content_bearing_samples_Some:
  assumes "nlp self = Some provider"
  shows "process_content_bearing_samples self samples_to_pipe =
           ([PipeCall (map snd samples_to_pipe) 50],
            Inr (map (\<lambda>(to_pipe_sample, d). (fst to_pipe_sample, d))
                   (zip samples_to_pipe (pipe provider (map snd samples_to_pipe) 50))))"
  using assms by (simp add: process_content_bearing_samples_def Let_def)

lemma process_non_content_bearing_samples_Some:
  assumes "nlp self = Some provider"
  shows "process_non_content_bearing_samples self empty_samples =
           Inr (map (\<lambda>empty_sample. (fst empty_sample, Doc (vocab provider) [])) empty_samples)"
  using assms
  by (simp add: process_non_content_bearing_samples_def zip_map2 zip_same_conv_map comp_def)

lemma attribute_document_list_Some:
  assumes "nlp self = Some provider"
  shows "attribute_document_list self indexed_training_samples =
           ([PipeCall (map snd (filter (\<lambda>s. snd s \<noteq> []) indexed_training_samples)) 50],
            Inr (merge_content_lists indexed_training_samples
                   (map (\<lambda>(to_pipe_sample, d). (fst to_pipe_sample, d))
                      (zip (filter (\<lambda>s. snd s \<noteq> []) indexed_training_samples)
                         (pipe provider
                            (map snd (filter (\<lambda>s. snd s \<noteq> []) indexed_training_samples)) 50))
                    @ map (\<lambda>empty_sample. (fst empty_sample, Doc (vocab provider) []))
                        (filter (\<lambda>s. snd s = []) indexed_training_samples))))"
  by (simp add: attribute_document_list_def filter_training_samples_by_content_def
      process_content_bearing_samples_Some [OF assms]
      process_non_content_bearing_samples_Some [OF assms])

lemma distinct_map_partition:
  "distinct (map f xs) \<Longrightarrow> distinct (map f (filter P xs) @ map f (filter (\<lambda>x. \<not> P x) xs))"
  by (induction xs) auto

lemma map_fst_zip_paired:
  "length ys = length xs \<Longrightarrow> map fst (map (\<lambda>(x, y). (fst x, y)) (zip xs ys)) = map fst xs"
  by (induction xs ys rule: list_induct2') auto

lemma merge_content_lists_member:
  assumes "distinct (map fst doc_lists)" and "(idx, d) \<in> set doc_lists"
  shows "(idx, SpacyDoc d) \<in> set (merge_content_lists indexed_training_samples doc_lists)"
proof -
  have "map_of (rev doc_lists) idx = Some d"
    using assms by (simp add: map_of_rev_distinct)
  then have "map_of (merge_content_lists indexed_training_samples doc_lists) idx
               = Some (SpacyDoc d)"
    by (simp add: merge_content_lists_lookup)
  then show ?thesis
    by (rule map_of_SomeD)
qed

lemma merge_content_lists_documents:
  assumes "fst ` set indexed_training_samples \<subseteq> fst ` set doc_lists"
    and "(idx, v) \<in> set (merge_content_lists indexed_training_samples doc_lists)"
  shows "\<exists>d. v = SpacyDoc d"
proof -
  have "map_of (merge_content_lists indexed_training_samples doc_lists) idx = Some v"
    using assms(2) by (simp only: map_of_eq_Some_iff [OF merge_content_lists_distinct])
  moreover have "map_of (rev doc_lists) idx = None \<Longrightarrow>
                   map_of (rev indexed_training_samples) idx = None"
    using assms(1) by (auto simp: map_of_eq_None_iff)
  ultimately show ?thesis
    by (auto simp: merge_content_lists_lookup split: option.splits)
qed

text \<open>The merge of what the two processing steps return, for samples with distinct positions
  and as many documents as there are non-empty texts.\<close>

lemma merged_documents:
  fixes v :: 'v and docs :: "'v doc list"
  assumes "distinct (map fst samples)"
    and "length docs = length (filter (\<lambda>s. snd s \<noteq> []) samples)"
    and out: "out = merge_content_lists samples
           (map (\<lambda>(to_pipe_sample, d). (fst to_pipe_sample, d))
              (zip (filter (\<lambda>s. snd s \<noteq> []) samples) docs)
            @ map (\<lambda>empty_sample. (fst empty_sample, Doc v [])) (filter (\<lambda>s. snd s = []) samples))"
  shows "map fst out = sort (map fst samples)"
    and "(idx, item) \<in> set out \<Longrightarrow> \<exists>d. item = SpacyDoc d"
    and "(idx, []) \<in> set samples \<Longrightarrow> (idx, SpacyDoc (Doc v [])) \<in> set out"
    and "k < length docs \<Longrightarrow>
           (fst (filter (\<lambda>s. snd s \<noteq> []) samples ! k), SpacyDoc (docs ! k)) \<in> set out"
proof -
  let ?to_pipe = "filter (\<lambda>s. snd s \<noteq> []) samples"
  let ?empties = "filter (\<lambda>s. \<not> snd s \<noteq> []) samples"
  let ?content = "map (\<lambda>(to_pipe_sample, d). (fst to_pipe_sample, d)) (zip ?to_pipe docs)"
  let ?empty = "map (\<lambda>empty_sample. (fst empty_sample, Doc v [])) ?empties"
  have out: "out = merge_content_lists samples (?content @ ?empty)"
    using out by simp
  have content_keys: "map fst ?content = map fst ?to_pipe"
    by (rule map_fst_zip_paired [OF assms(2)])
  have empty_keys: "map fst ?empty = map fst ?empties"
    by (simp add: comp_def)
  have keys: "map fst (?content @ ?empty) = map fst ?to_pipe @ map fst ?empties"
    by (simp only: map_append content_keys empty_keys)
  have "distinct (map fst ?to_pipe @ map fst ?empties)"
    by (rule distinct_map_partition [OF assms(1)])
  then have distinct: "distinct (map fst (?content @ ?empty))"
    by (simp only: keys)
  have key_set: "fst ` set (?content @ ?empty) = fst ` set samples"
  proof -
    have "fst ` set (?content @ ?empty) = set (map fst (?content @ ?empty))"
      by (simp only: set_map)
    also have "\<dots> = set (map fst ?to_pipe @ map fst ?empties)"
      by (simp only: keys)
    also have "\<dots> = fst ` set samples"
      by auto
    finally show ?thesis .
  qed
  show "map fst out = sort (map fst samples)"
    unfolding out by (rule merge_content_lists_keys [OF assms(1)]) (simp only: key_set)
  show "\<exists>d. item = SpacyDoc d" if "(idx, item) \<in> set out"
    using that merge_content_lists_documents [of samples "?content @ ?empty" idx item]
    unfolding out by (simp only: key_set)
  show "(idx, SpacyDoc (Doc v [])) \<in> set out" if "(idx, []) \<in> set samples"
  proof -
    have "(idx, []) \<in> set ?empties"
      using that by simp
    then have "(idx, Doc v []) \<in> set (?content @ ?empty)"
      by force
    then show ?thesis
      unfolding out by (rule merge_content_lists_member [OF distinct])
  qed
  show "(fst (?to_pipe ! k), SpacyDoc (docs ! k)) \<in> set out" if "k < length docs"
  proof -
    have "?content ! k = (fst (?to_pipe ! k), docs ! k)"
      using that assms(2) by simp
    moreover have "k < length ?content"
      using that assms(2) by simp
    ultimately have "(fst (?to_pipe ! k), docs ! k) \<in> set ?content"
      by (metis nth_mem)
    then have "(fst (?to_pipe ! k), docs ! k) \<in> set (?content @ ?empty)"
      by simp
    then show ?thesis
      unfolding out by (rule merge_content_lists_member [OF distinct])
  qed
qed

text \<open>
  C1. For indexed samples with distinct positions, empty and non-empty texts in any order,
  and a provider whose \<^verbatim>\<open>pipe\<close> returns one document for each text it is given, the batch
  pipeline (filter, the two processing steps, merge) makes one \<^verbatim>\<open>pipe\<close> call and returns
  pairs of a position and a document whose positions, in output order, are the input positions
  in ascending order. The position of an empty text carries the document without tokens, and
  the position of the \<open>k\<close>-th non-empty text carries the \<open>k\<close>-th document of the provider,
  the one made for that text.
\<close>

theorem attribute_document_list_order:
  assumes "nlp self = Some provider"
    and "distinct (map fst indexed_training_samples)"
    and "filter_training_samples_by_content indexed_training_samples
           = (samples_to_pipe, empty_samples)"
    and "length (pipe provider (map snd samples_to_pipe) 50) = length samples_to_pipe"
  shows "\<exists>document_list.
           attribute_document_list self indexed_training_samples
             = ([PipeCall (map snd samples_to_pipe) 50], Inr document_list)
           \<and> map fst document_list = sort (map fst indexed_training_samples)
           \<and> (\<forall>(idx, item) \<in> set document_list. \<exists>d. item = SpacyDoc d)
           \<and> (\<forall>(idx, raw) \<in> set indexed_training_samples.
                 if raw = []
                 then (idx, SpacyDoc (Doc (vocab provider) [])) \<in> set document_list
                 else \<exists>k < length samples_to_pipe.
                        samples_to_pipe ! k = (idx, raw) \<and>
                        (idx, SpacyDoc (pipe provider (map snd samples_to_pipe) 50 ! k))
                          \<in> set document_list)"
proof -
  let ?docs = "pipe provider (map snd samples_to_pipe) 50"
  have to_pipe: "samples_to_pipe = filter (\<lambda>s. snd s \<noteq> []) indexed_training_samples"
    using assms(3) by (simp add: filter_training_samples_by_content_def)
  obtain document_list where run:
    "attribute_document_list self indexed_training_samples
       = ([PipeCall (map snd samples_to_pipe) 50], Inr document_list)"
    and out: "document_list = merge_content_lists indexed_training_samples
           (map (\<lambda>(to_pipe_sample, d). (fst to_pipe_sample, d)) (zip samples_to_pipe ?docs)
            @ map (\<lambda>empty_sample. (fst empty_sample, Doc (vocab provider) []))
                (filter (\<lambda>s. snd s = []) indexed_training_samples))"
    using attribute_document_list_Some [OF assms(1), of indexed_training_samples]
    by (simp add: to_pipe)
  note merged = merged_documents [OF assms(2) assms(4) [unfolded to_pipe] out [unfolded to_pipe],
      folded to_pipe]
  have each: "if raw = []
              then (idx, SpacyDoc (Doc (vocab provider) [])) \<in> set document_list
              else \<exists>k < length samples_to_pipe.
                     samples_to_pipe ! k = (idx, raw) \<and>
                     (idx, SpacyDoc (?docs ! k)) \<in> set document_list"
    if sample: "(idx, raw) \<in> set indexed_training_samples" for idx raw
  proof (cases "raw = []")
    case True
    then show ?thesis
      using sample merged(3) [of idx] by simp
  next
    case False
    then have "(idx, raw) \<in> set samples_to_pipe"
      using sample by (simp add: to_pipe)
    then obtain k where k: "k < length samples_to_pipe" "samples_to_pipe ! k = (idx, raw)"
      by (auto simp: in_set_conv_nth)
    then have "(idx, SpacyDoc (?docs ! k)) \<in> set document_list"
      using merged(4) [of k] assms(4) by simp
    with k False show ?thesis
      by auto
  qed
  have "map fst document_list = sort (map fst indexed_training_samples)"
    by (rule merged(1))
  moreover have "\<forall>(idx, item) \<in> set document_list. \<exists>d. item = SpacyDoc d"
    using merged(2) by auto
  ultimately show ?thesis
    using run each by (intro exI [of _ document_list]) auto
qed

theorem attribute_document_list_order_witness:
  "nlp example_component = Some example_provider
   \<and> distinct (map fst [(5, []), (1, str ''hello world''), (- 3, str ''a''), (2 :: int, [])])
   \<and> filter_training_samples_by_content [(5, []), (1, str ''hello world''), (- 3, str ''a''), (2, [])]
       = ([(1, str ''hello world''), (- 3, str ''a'')], [(5, []), (2, [])])
   \<and> length (pipe example_provider (map snd [(1 :: int, str ''hello world''), (- 3, str ''a'')]) 50)
       = length [(1 :: int, str ''hello world''), (- 3, str ''a'')]
   \<and> (\<exists>document_list.
         attribute_document_list example_component
             [(5, []), (1, str ''hello world''), (- 3, str ''a''), (2, [])]
           = ([PipeCall [str ''hello world'', str ''a''] 50], Inr document_list)
         \<and> map fst document_list = [- 3, 1, 2, 5]
         \<and> (5, SpacyDoc (Doc () [])) \<in> set document_list
         \<and> (- 3, SpacyDoc (Doc () [str ''a''])) \<in> set document_list)"
proof -
  let ?samples = "[(5, []), (1, str ''hello world''), (- 3, str ''a''), (2 :: int, [])]"
  let ?to_pipe = "[(1 :: int, str ''hello world''), (- 3, str ''a'')]"
  have provider: "nlp example_component = Some example_provider"
    by (simp add: example_component_def)
  have positions: "distinct (map fst ?samples)"
    by simp
  have partition: "filter_training_samples_by_content ?samples = (?to_pipe, [(5, []), (2, [])])"
    by (simp add: filter_training_samples_by_content_def str_def)
  have contract: "length (pipe example_provider (map snd ?to_pipe) 50) = length ?to_pipe"
    by (simp add: example_provider_def)
  have a: "pipe example_provider (map snd ?to_pipe) 50 ! 1 = Doc () [str ''a'']"
    by (simp add: example_provider_def str_def)
  have v: "vocab example_provider = ()"
    by simp
  obtain document_list where run:
      "attribute_document_list example_component ?samples
         = ([PipeCall (map snd ?to_pipe) 50], Inr document_list)"
    and sorted: "map fst document_list = sort (map fst ?samples)"
    and each: "\<forall>(idx, raw) \<in> set ?samples.
                 if raw = []
                 then (idx, SpacyDoc (Doc (vocab example_provider) [])) \<in> set document_list
                 else \<exists>k < length ?to_pipe.
                        ?to_pipe ! k = (idx, raw) \<and>
                        (idx, SpacyDoc (pipe example_provider (map snd ?to_pipe) 50 ! k))
                          \<in> set document_list"
    using attribute_document_list_order [OF provider positions partition contract] by blast
  have "(5, SpacyDoc (Doc () [])) \<in> set document_list"
    using each v by simp
  moreover have "\<exists>k < length ?to_pipe. ?to_pipe ! k = (- 3, str ''a'') \<and>
      (- 3, SpacyDoc (pipe example_provider (map snd ?to_pipe) 50 ! k)) \<in> set document_list"
    using each by (simp add: str_def)
  then have "(- 3, SpacyDoc (Doc () [str ''a''])) \<in> set document_list"
    using a by (auto simp: less_Suc_eq numeral_2_eq_2)
  ultimately show ?thesis
    using provider positions partition contract run sorted by (intro conjI exI [of _ document_list]) simp_all
qed

subsection \<open>Scenario: two texts around an empty one\<close>

lemma map_snd_enumerate_from: "map snd (enumerate_from idx xs) = xs"
  by (induction xs arbitrary: idx) auto

lemma length_enumerate_from: "length (enumerate_from idx xs) = length xs"
  by (induction xs arbitrary: idx) auto

lemma map_fst_enumerate_from:
  "map fst (enumerate_from idx xs) = map (\<lambda>i. idx + int i) [0..<length xs]"
proof (induction xs arbitrary: idx)
  case Nil
  show ?case by simp
next
  case (Cons x xs)
  have "map (\<lambda>i. idx + int i) [0..<Suc (length xs)]
          = idx # map (\<lambda>i. idx + 1 + int i) [0..<length xs]"
    by (simp add: upt_conv_Cons map_Suc_upt [symmetric] del: upt_Suc)
  then show ?case
    by (simp add: Cons.IH)
qed

text \<open>
  C7. With a configuration that is not case sensitive and examples whose texts are
  \<^verbatim>\<open>"Hello"\<close>, \<^verbatim>\<open>""\<close> and \<^verbatim>\<open>"World"\<close>, the indexed samples are the lower-cased texts at
  positions 0, 1 and 2; \<^verbatim>\<open>nlp.pipe\<close> is called once, with exactly \<^verbatim>\<open>["hello", "world"]\<close>;
  the merged list has the positions 0, 1, 2 in this order and the document without tokens at
  position 1; and when the provider returns two documents they stand at positions 0 and 2.
\<close>

theorem hello_empty_world:
  assumes "nlp self = Some provider"
    and "case_sensitive (component_config self) \<noteq> Some True"
    and "message_get e0 attribute = Some (str ''Hello'')"
    and "message_get e1 attribute = Some []"
    and "message_get e2 attribute = Some (str ''World'')"
  shows "attribute_samples self u [e0, e1, e2] attribute = [(0, str ''hello''), (1, []), (2, str ''world'')]
    \<and> filter_training_samples_by_content [(0, str ''hello''), (1, []), (2, str ''world'')]
        = ([(0, str ''hello''), (2, str ''world'')], [(1, [])])
    \<and> (\<exists>document_list.
          attribute_document_list self (attribute_samples self u [e0, e1, e2] attribute)
            = ([PipeCall [str ''hello'', str ''world''] 50], Inr document_list)
          \<and> map fst document_list = [0, 1, 2]
          \<and> document_list ! 1 = (1, SpacyDoc (Doc (vocab provider) []))
          \<and> (\<forall>d0 d1. pipe provider [str ''hello'', str ''world''] 50 = [d0, d1] \<longrightarrow>
                document_list = [(0, SpacyDoc d0), (1, SpacyDoc (Doc (vocab provider) [])),
                                 (2, SpacyDoc d1)]))"
proof -
  have hello: "lower u (str ''Hello'') = str ''hello''"
    and world: "lower u (str ''World'') = str ''world''"
    by (simp_all add: lower_def lower_ucs4_def str_def)
  have empty: "lower u [] = []"
    by (simp add: lower_def)
  have samples: "attribute_samples self u [e0, e1, e2] attribute
                   = [(0, str ''hello''), (1, []), (2, str ''world'')]"
    using assms(2-5)
    by (simp add: attribute_samples_def get_text_def preprocess_text_def hello world empty)
  have partition: "filter_training_samples_by_content [(0, str ''hello''), (1, []), (2, str ''world'')]
                     = ([(0, str ''hello''), (2, str ''world'')], [(1, [])])"
    by (simp add: filter_training_samples_by_content_def str_def)
  let ?docs = "pipe provider [str ''hello'', str ''world''] 50"
  let ?out = "merge_content_lists [(0, str ''hello''), (1, []), (2, str ''world'')]
                (map (\<lambda>(to_pipe_sample, d). (fst to_pipe_sample, d))
                   (zip [(0, str ''hello''), (2, str ''world'')] ?docs)
                 @ [(1, Doc (vocab provider) [])])"
  have run: "attribute_document_list self [(0, str ''hello''), (1, []), (2, str ''world'')]
               = ([PipeCall [str ''hello'', str ''world''] 50], Inr ?out)"
    by (simp add: attribute_document_list_Some [OF assms(1)] str_def)
  have merged: "map fst ?out = [0, 1, 2] \<and> ?out ! 1 = (1, SpacyDoc (Doc (vocab provider) []))
      \<and> (\<forall>d0 d1. ?docs = [d0, d1] \<longrightarrow>
            ?out = [(0, SpacyDoc d0), (1, SpacyDoc (Doc (vocab provider) [])), (2, SpacyDoc d1)])"
  proof (cases ?docs)
    case Nil
    then show ?thesis
      by (simp add: merge_content_lists_def dict_def dict_update_def)
  next
    case (Cons d0 rest)
    show ?thesis
    proof (cases rest)
      case Nil
      with Cons show ?thesis
        by (simp add: merge_content_lists_def dict_def dict_update_def)
    next
      case (Cons d1 rest')
      with \<open>?docs = d0 # rest\<close> show ?thesis
        by (simp add: merge_content_lists_def dict_def dict_update_def)
    qed
  qed
  show ?thesis
    using samples partition run merged by simp
qed

theorem hello_empty_world_witness:
  "nlp example_component = Some example_provider
   \<and> case_sensitive (component_config example_component) \<noteq> Some True
   \<and> attribute_samples example_component example_unicode
        [\<lparr>text_data = [''text'' \<mapsto> str ''Hello''], doc_data = Map.empty\<rparr>,
         \<lparr>text_data = [''text'' \<mapsto> []], doc_data = Map.empty\<rparr>,
         \<lparr>text_data = [''text'' \<mapsto> str ''World''], doc_data = Map.empty\<rparr>] ''text''
       = [(0, str ''hello''), (1, []), (2, str ''world'')]
   \<and> attribute_document_list example_component [(0, str ''hello''), (1, []), (2, str ''world'')]
       = ([PipeCall [str ''hello'', str ''world''] 50],
          Inr [(0, SpacyDoc (Doc () [str ''hello''])), (1, SpacyDoc (Doc () [])),
               (2, SpacyDoc (Doc () [str ''world'']))])"
proof -
  let ?e0 = "\<lparr>text_data = [''text'' \<mapsto> str ''Hello''], doc_data = Map.empty\<rparr> :: unit Message"
  let ?e1 = "\<lparr>text_data = [''text'' \<mapsto> []], doc_data = Map.empty\<rparr> :: unit Message"
  let ?e2 = "\<lparr>text_data = [''text'' \<mapsto> str ''World''], doc_data = Map.empty\<rparr> :: unit Message"
  have provider: "nlp example_component = Some example_provider"
    and folding: "case_sensitive (component_config example_component) \<noteq> Some True"
    by (simp_all add: example_component_def)
  have texts: "message_get ?e0 ''text'' = Some (str ''Hello'')" "message_get ?e1 ''text'' = Some []"
    "message_get ?e2 ''text'' = Some (str ''World'')"
    by (simp_all add: message_get_def)
  have docs: "pipe example_provider [str ''hello'', str ''world''] 50
                = [Doc () [str ''hello''], Doc () [str ''world'']]"
    by (simp add: example_provider_def str_def)
  have v: "vocab example_provider = ()"
    by simp
  show ?thesis
    using hello_empty_world [OF provider folding texts, where u = example_unicode]
      provider folding docs v
    by auto
qed

subsection \<open>Inputs whose texts are all empty\<close>

lemma docs_for_attributes_Some:
  assumes "nlp self = Some provider"
  shows "docs_for_attributes self u training_examples attributes attribute_docs =
           (concat (map (\<lambda>a. fst (attribute_document_list self
                                      (attribute_samples self u training_examples a))) attributes),
            Inr (\<lambda>a. if a \<in> set attributes
                      then Some (map snd (projr (snd (attribute_document_list self
                                   (attribute_samples self u training_examples a)))))
                      else attribute_docs a))"
proof (induction attributes arbitrary: attribute_docs)
  case Nil
  show ?case by simp
next
  case (Cons attribute attributes)
  obtain ev document_list where run:
    "attribute_document_list self (attribute_samples self u training_examples attribute)
       = (ev, Inr document_list)"
    using attribute_document_list_Some [OF assms] by blast
  show ?case
    by (simp add: run Cons.IH fun_eq_iff)
qed

lemma all_empty_filter:
  assumes "\<forall>sample \<in> set samples. snd sample = []"
  shows "filter (\<lambda>s. snd s \<noteq> []) samples = []"
  using assms by (induction samples) auto

lemma attribute_samples_all_empty:
  assumes "\<forall>e \<in> set training_examples. get_text self u e attribute = []"
  shows "\<forall>sample \<in> set (attribute_samples self u training_examples attribute). snd sample = []"
proof -
  have "snd ` set (attribute_samples self u training_examples attribute)
          = set (map (\<lambda>e. get_text self u e attribute) training_examples)"
    unfolding attribute_samples_def Let_def
    by (simp only: set_map [symmetric] map_snd_enumerate_from)
  then show ?thesis
    using assms by (metis (no_types, lifting) imageI imageE set_map)
qed

text \<open>
  C2, as the code has it. When every text is empty, and also when there is no sample at all,
  \<^verbatim>\<open>nlp.pipe\<close> is invoked exactly once and is given the empty list of texts, so that no text
  reaches the provider; \<^verbatim>\<open>docs_for_training_data\<close> makes this one call for each dense
  featurizable attribute. For the input without samples the result is the empty list.
\<close>

theorem all_empty_one_pipe_call:
  assumes "nlp self = Some provider"
  shows "((\<forall>sample \<in> set indexed_training_samples. snd sample = []) \<longrightarrow>
            fst (attribute_document_list self indexed_training_samples) = [PipeCall [] 50]
            \<and> pipe_calls (fst (attribute_document_list self indexed_training_samples)) = 1)
    \<and> attribute_document_list self [] = ([PipeCall [] 50], Inr [])
    \<and> ((\<forall>e \<in> set training_examples.
            \<forall>a \<in> set (DENSE_FEATURIZABLE_ATTRIBUTES c). get_text self u e a = []) \<longrightarrow>
          fst (docs_for_training_data self u c training_examples)
            = replicate (length (DENSE_FEATURIZABLE_ATTRIBUTES c)) (PipeCall [] 50))"
proof (intro conjI impI)
  assume empty: "\<forall>sample \<in> set indexed_training_samples. snd sample = []"
  show events: "fst (attribute_document_list self indexed_training_samples) = [PipeCall [] 50]"
    by (simp add: attribute_document_list_Some [OF assms] all_empty_filter [OF empty])
  show "pipe_calls (fst (attribute_document_list self indexed_training_samples)) = 1"
    by (simp add: events pipe_calls_def)
next
  show "attribute_document_list self [] = ([PipeCall [] 50], Inr [])"
    by (simp add: attribute_document_list_Some [OF assms] merge_content_lists_def dict_def
        dict_update_def)
next
  assume empty: "\<forall>e \<in> set training_examples.
                   \<forall>a \<in> set (DENSE_FEATURIZABLE_ATTRIBUTES c). get_text self u e a = []"
  have "fst (attribute_document_list self (attribute_samples self u training_examples a))
          = [PipeCall [] 50]"
    if "a \<in> set (DENSE_FEATURIZABLE_ATTRIBUTES c)" for a
  proof -
    have "\<forall>e \<in> set training_examples. get_text self u e a = []"
      using that empty by blast
    then have "filter (\<lambda>s. snd s \<noteq> []) (attribute_samples self u training_examples a) = []"
      by (intro all_empty_filter attribute_samples_all_empty)
    then show ?thesis
      by (simp add: attribute_document_list_Some [OF assms])
  qed
  then have "concat (map (\<lambda>a. fst (attribute_document_list self
                                      (attribute_samples self u training_examples a))) attributes)
               = replicate (length attributes) (PipeCall [] 50)"
    if "set attributes \<subseteq> set (DENSE_FEATURIZABLE_ATTRIBUTES c)" for attributes
    using that by (induction attributes) auto
  then show "fst (docs_for_training_data self u c training_examples)
               = replicate (length (DENSE_FEATURIZABLE_ATTRIBUTES c)) (PipeCall [] 50)"
    by (simp add: docs_for_training_data_def docs_for_attributes_Some [OF assms])
qed

theorem all_empty_one_pipe_call_witness:
  "nlp example_component = Some example_provider
   \<and> fst (attribute_document_list example_component [(0, []), (1, [])]) = [PipeCall [] 50]
   \<and> attribute_document_list example_component [] = ([PipeCall [] 50], Inr [])
   \<and> fst (docs_for_training_data example_component example_unicode example_constants
            [\<lparr>text_data = Map.empty, doc_data = Map.empty\<rparr>,
             \<lparr>text_data = [''text'' \<mapsto> []], doc_data = Map.empty\<rparr>])
       = [PipeCall [] 50, PipeCall [] 50, PipeCall [] 50]"
proof -
  let ?examples = "[\<lparr>text_data = Map.empty, doc_data = Map.empty\<rparr>,
                    \<lparr>text_data = [''text'' \<mapsto> []], doc_data = Map.empty\<rparr>] :: unit Message list"
  have provider: "nlp example_component = Some example_provider"
    by (simp add: example_component_def)
  have samples: "\<forall>sample \<in> set [(0 :: int, []), (1, [] :: string)]. snd sample = []"
    by simp
  have empty: "lower example_unicode [] = []"
    by (simp add: lower_def)
  have examples: "\<forall>e \<in> set ?examples.
      \<forall>a \<in> set (DENSE_FEATURIZABLE_ATTRIBUTES example_constants). get_text example_component example_unicode e a = []"
    by (simp add: get_text_def preprocess_text_def message_get_def example_component_def empty)
  have attributes: "replicate (length (DENSE_FEATURIZABLE_ATTRIBUTES example_constants)) (PipeCall [] 50)
                      = [PipeCall [] 50, PipeCall [] 50, PipeCall [] 50]"
    by (simp add: example_constants_def)
  show ?thesis
    using all_empty_one_pipe_call [OF provider, of "[(0, []), (1, [])]" ?examples example_constants
        example_unicode]
      provider samples examples attributes
    by simp
qed

text \<open>
  C2, as it is stated, fails: a run on one empty text, and a run on no sample at all, each
  invoke \<^verbatim>\<open>nlp.pipe\<close> once.
\<close>

theorem pipe_never_invoked_counterexample:
  "pipe_calls (fst (attribute_document_list example_component [(0, [])])) = 1
   \<and> pipe_calls (fst (attribute_document_list example_component [])) = 1
   \<and> fst (process_content_bearing_samples example_component []) = [PipeCall [] 50]"
  by (simp add: attribute_document_list_def filter_training_samples_by_content_def
      process_content_bearing_samples_def process_non_content_bearing_samples_def
      example_component_def pipe_calls_def)

subsection \<open>Inference on one message\<close>

lemma message_get_message_set: "message_get (message_set message prop info) attribute = message_get message attribute"
  by (simp add: message_get_def message_set_def)

lemma doc_for_text_Some:
  assumes "nlp self = Some provider"
  shows "doc_for_text self u raw =
           ([NlpCall (preprocess_text self u (Some raw))],
            Inr (call provider (preprocess_text self u (Some raw))))"
  using assms by (simp add: doc_for_text_def Let_def)

text \<open>What \<^verbatim>\<open>process\<close> does to the attached values, one attribute after the other.\<close>

lemma process_attributes_Some:
  assumes "nlp self = Some provider"
  shows "process_attributes self u c attributes message =
           (map (\<lambda>a. NlpCall (preprocess_text self u (message_get message a)))
              (filter (\<lambda>a. message_get message a \<noteq> None \<and> message_get message a \<noteq> Some [])
                 attributes),
            Inr (message\<lparr>doc_data :=
                   foldl (\<lambda>attached a.
                            case message_get message a of
                              None \<Rightarrow> attached
                            | Some raw \<Rightarrow>
                                if raw = [] then attached
                                else attached(SPACY_DOCS c a \<mapsto>
                                       SpacyDoc (call provider (preprocess_text self u (Some raw)))))
                     (doc_data message) attributes\<rparr>))"
proof (induction attributes arbitrary: message)
  case Nil
  show ?case by simp
next
  case (Cons attribute attributes)
  show ?case
  proof (cases "message_get message attribute")
    case None
    then show ?thesis
      by (simp add: Cons.IH)
  next
    case (Some raw)
    show ?thesis
    proof (cases "raw = []")
      case True
      with Some show ?thesis
        by (simp add: Cons.IH)
    next
      case False
      let ?d = "SpacyDoc (call provider (preprocess_text self u (Some raw)))"
      have "doc_data (message_set message (SPACY_DOCS c attribute) ?d)
              = (doc_data message)(SPACY_DOCS c attribute \<mapsto> ?d)"
        and "\<And>attached. message_set message (SPACY_DOCS c attribute) ?d\<lparr>doc_data := attached\<rparr>
              = message\<lparr>doc_data := attached\<rparr>"
        by (simp_all add: message_set_def)
      with Some False show ?thesis
        by (simp add: Cons.IH doc_for_text_Some [OF assms] message_get_message_set)
    qed
  qed
qed

lemma attached_elsewhere:
  assumes "slot \<notin> SPACY_DOCS c ` set attributes"
  shows "foldl (\<lambda>attached a.
                  case message_get message a of
                    None \<Rightarrow> attached
                  | Some raw \<Rightarrow>
                      if raw = [] then attached else attached(SPACY_DOCS c a \<mapsto> f a raw))
           initially attributes slot = initially slot"
  using assms by (induction attributes arbitrary: initially) (auto split: option.split)

lemma attached_slot:
  assumes "inj_on (SPACY_DOCS c) (set attributes)" and "attribute \<in> set attributes"
  shows "foldl (\<lambda>attached a.
                  case message_get message a of
                    None \<Rightarrow> attached
                  | Some raw \<Rightarrow>
                      if raw = [] then attached else attached(SPACY_DOCS c a \<mapsto> f a raw))
           initially attributes (SPACY_DOCS c attribute)
         = (case message_get message attribute of
              None \<Rightarrow> initially (SPACY_DOCS c attribute)
            | Some raw \<Rightarrow>
                if raw = [] then initially (SPACY_DOCS c attribute) else Some (f attribute raw))"
  using assms
proof (induction attributes rule: rev_induct)
  case Nil
  then show ?case by simp
next
  case (snoc b bs)
  have inj: "inj_on (SPACY_DOCS c) (set bs)"
    using snoc.prems(1) by (simp add: inj_on_def)
  show ?case
  proof (cases "attribute = b")
    case True
    show ?thesis
    proof (cases "b \<in> set bs")
      case True
      with \<open>attribute = b\<close> snoc.IH [OF inj] show ?thesis
        by (simp split: option.split)
    next
      case False
      then have "SPACY_DOCS c b \<notin> SPACY_DOCS c ` set bs"
        using snoc.prems(1) by (auto simp: inj_on_def)
      with \<open>attribute = b\<close> show ?thesis
        by (simp add: attached_elsewhere split: option.split)
    qed
  next
    case False
    then have "attribute \<in> set bs" and "SPACY_DOCS c b \<noteq> SPACY_DOCS c attribute"
      using snoc.prems by (auto simp: inj_on_def)
    with snoc.IH [OF inj] show ?thesis
      by (simp split: option.split)
  qed
qed

lemma pipe_calls_NlpCall: "pipe_calls (map (\<lambda>a. NlpCall (f a)) attributes) = 0"
  by (induction attributes) (simp_all add: pipe_calls_def)

text \<open>
  C8. \<^verbatim>\<open>process\<close> goes through the dense featurizable attributes. A raw text is present
  when \<^verbatim>\<open>message.get(attribute)\<close> holds in Python, that is when it is neither \<^verbatim>\<open>None\<close> nor
  the empty string. For each attribute whose raw text is present, \<^verbatim>\<open>process\<close> calls
  \<^verbatim>\<open>nlp\<close> once on the normalised text, never \<^verbatim>\<open>nlp.pipe\<close>, and attaches the document it
  gets under the attribute's name in \<^verbatim>\<open>SPACY_DOCS\<close>, whatever the document holds. For every
  other attribute it calls nothing and leaves what is attached as it was. The names in
  \<^verbatim>\<open>SPACY_DOCS\<close> are taken to differ from one attribute to the other.
\<close>

theorem process_attaches_documents:
  assumes "nlp self = Some provider"
    and "inj_on (SPACY_DOCS c) (set (DENSE_FEATURIZABLE_ATTRIBUTES c))"
  shows "\<exists>message'.
           process self u c message
             = (map (\<lambda>a. NlpCall (preprocess_text self u (message_get message a)))
                  (filter (\<lambda>a. message_get message a \<noteq> None \<and> message_get message a \<noteq> Some [])
                     (DENSE_FEATURIZABLE_ATTRIBUTES c)),
                Inr message')
           \<and> pipe_calls (fst (process self u c message)) = 0
           \<and> text_data message' = text_data message
           \<and> (\<forall>a \<in> set (DENSE_FEATURIZABLE_ATTRIBUTES c). \<forall>raw.
                 message_get message a = Some raw \<and> raw \<noteq> [] \<longrightarrow>
                 doc_data message' (SPACY_DOCS c a)
                   = Some (SpacyDoc (call provider (preprocess_text self u (Some raw)))))
           \<and> (\<forall>a \<in> set (DENSE_FEATURIZABLE_ATTRIBUTES c).
                 message_get message a = None \<or> message_get message a = Some [] \<longrightarrow>
                 doc_data message' (SPACY_DOCS c a) = doc_data message (SPACY_DOCS c a))"
proof -
  let ?attributes = "DENSE_FEATURIZABLE_ATTRIBUTES c"
  let ?attach = "\<lambda>attached a.
                   case message_get message a of
                     None \<Rightarrow> attached
                   | Some raw \<Rightarrow>
                       if raw = [] then attached
                       else attached(SPACY_DOCS c a \<mapsto>
                              SpacyDoc (call provider (preprocess_text self u (Some raw))))"
  let ?message' = "message\<lparr>doc_data := foldl ?attach (doc_data message) ?attributes\<rparr>"
  note run = process_attributes_Some [OF assms(1), where c = c and attributes = ?attributes
      and message = message and u = u]
  note slot = attached_slot [OF assms(2), where message = message and initially = "doc_data message"
      and f = "\<lambda>a raw. SpacyDoc (call provider (preprocess_text self u (Some raw)))"]
  have "process self u c message
          = (map (\<lambda>a. NlpCall (preprocess_text self u (message_get message a)))
               (filter (\<lambda>a. message_get message a \<noteq> None \<and> message_get message a \<noteq> Some [])
                  ?attributes),
             Inr ?message')"
    using run by (simp add: process_def)
  moreover have "pipe_calls (fst (process self u c message)) = 0"
    using run by (simp add: process_def pipe_calls_NlpCall)
  moreover have "text_data ?message' = text_data message"
    by simp
  moreover have "doc_data ?message' (SPACY_DOCS c a)
                   = Some (SpacyDoc (call provider (preprocess_text self u (Some raw))))"
    if "a \<in> set ?attributes" and "message_get message a = Some raw \<and> raw \<noteq> []" for a raw
    using slot [OF that(1)] that(2) by simp
  moreover have "doc_data ?message' (SPACY_DOCS c a) = doc_data message (SPACY_DOCS c a)"
    if "a \<in> set ?attributes" and "message_get message a = None \<or> message_get message a = Some []"
    for a
    using slot [OF that(1)] that(2) by auto
  ultimately show ?thesis
    by (intro exI [of _ ?message']) blast
qed

theorem process_attaches_documents_witness:
  "nlp example_component = Some example_provider
   \<and> inj_on (SPACY_DOCS example_constants) (set (DENSE_FEATURIZABLE_ATTRIBUTES example_constants))
   \<and> (\<exists>message'.
         process example_component example_unicode example_constants
             \<lparr>text_data = [''text'' \<mapsto> str ''Hello World'', ''action_text'' \<mapsto> []],
              doc_data = Map.empty\<rparr>
           = ([NlpCall (str ''hello world'')], Inr message')
         \<and> doc_data message' ''text_spacy_doc'' = Some (SpacyDoc (Doc () [str ''hello'', str ''world'']))
         \<and> doc_data message' ''response_spacy_doc'' = None
         \<and> doc_data message' ''action_text_spacy_doc'' = None)"
proof -
  let ?message = "\<lparr>text_data = [''text'' \<mapsto> str ''Hello World'', ''action_text'' \<mapsto> []],
                   doc_data = Map.empty\<rparr> :: unit Message"
  have provider: "nlp example_component = Some example_provider"
    by (simp add: example_component_def)
  have names: "inj_on (SPACY_DOCS example_constants)
                 (set (DENSE_FEATURIZABLE_ATTRIBUTES example_constants))"
    by (simp add: example_constants_def inj_on_def)
  have lowered: "lower example_unicode (str ''Hello World'') = str ''hello world''"
    by (simp add: lower_def lower_ucs4_def str_def)
  have normalised: "preprocess_text example_component example_unicode (Some (str ''Hello World'')) = str ''hello world''"
    by (simp add: preprocess_text_def example_component_def lowered)
  have d: "call example_provider (str ''hello world'') = Doc () [str ''hello'', str ''world'']"
    by (simp add: example_provider_def str_def)
  have texts: "message_get ?message ''text'' = Some (str ''Hello World'')"
    "message_get ?message ''response'' = None" "message_get ?message ''action_text'' = Some []"
    by (simp_all add: message_get_def)
  have attributes: "DENSE_FEATURIZABLE_ATTRIBUTES example_constants
                      = [''text'', ''response'', ''action_text'']"
    and slots: "SPACY_DOCS example_constants ''text'' = ''text_spacy_doc''"
      "SPACY_DOCS example_constants ''response'' = ''response_spacy_doc''"
      "SPACY_DOCS example_constants ''action_text'' = ''action_text_spacy_doc''"
    by (simp_all add: example_constants_def)
  obtain message' where run: "process example_component example_unicode example_constants ?message
        = (map (\<lambda>a. NlpCall (preprocess_text example_component example_unicode (message_get ?message a)))
             (filter (\<lambda>a. message_get ?message a \<noteq> None \<and> message_get ?message a \<noteq> Some [])
                (DENSE_FEATURIZABLE_ATTRIBUTES example_constants)),
           Inr message')"
    and present: "\<forall>a \<in> set (DENSE_FEATURIZABLE_ATTRIBUTES example_constants). \<forall>raw.
        message_get ?message a = Some raw \<and> raw \<noteq> [] \<longrightarrow>
        doc_data message' (SPACY_DOCS example_constants a)
          = Some (SpacyDoc (call example_provider (preprocess_text example_component example_unicode (Some raw))))"
    and absent: "\<forall>a \<in> set (DENSE_FEATURIZABLE_ATTRIBUTES example_constants).
        message_get ?message a = None \<or> message_get ?message a = Some [] \<longrightarrow>
        doc_data message' (SPACY_DOCS example_constants a)
          = doc_data ?message (SPACY_DOCS example_constants a)"
    using process_attaches_documents [OF provider names, where message = ?message
        and u = example_unicode]
    by blast
  have "process example_component example_unicode example_constants ?message
          = ([NlpCall (str ''hello world'')], Inr message')"
    unfolding run attributes by (simp add: texts normalised str_eq_Nil)
  moreover have "doc_data message' ''text_spacy_doc''
                   = Some (SpacyDoc (Doc () [str ''hello'', str ''world'']))"
    using present texts(1) by (simp add: attributes slots normalised d str_eq_Nil)
  moreover have "doc_data message' ''response_spacy_doc'' = None"
    and "doc_data message' ''action_text_spacy_doc'' = None"
    using absent texts(2,3) by (simp_all add: attributes slots)
  ultimately show ?thesis
    using provider names by blast
qed

subsection \<open>Training\<close>

lemma train_examples_Some:
  assumes "attribute_docs attribute = Some docs" and "idx + length examples \<le> length docs"
  shows "train_examples c attribute_docs attribute idx examples =
           Inr (map (\<lambda>(example, d).
                       if len d \<noteq> 0 then message_set example (SPACY_DOCS c attribute) d
                       else example)
                  (zip examples (drop idx docs)))"
  using assms(2)
proof (induction examples arbitrary: idx)
  case Nil
  show ?case by simp
next
  case (Cons example examples)
  then have idx: "idx < length docs" and rest: "Suc idx + length examples \<le> length docs"
    by simp_all
  have "drop idx docs = docs ! idx # drop (Suc idx) docs"
    using idx by (simp add: Cons_nth_drop_Suc)
  then show ?case
    using idx by (simp add: assms(1) Cons.IH [OF rest] Let_def)
qed

lemma train_attributes_Some:
  assumes "\<forall>a \<in> set attributes. attribute_docs a = Some (docs a) \<and> length (docs a) = length examples"
  shows "\<exists>examples'.
           train_attributes c attribute_docs attributes examples = Inr examples'
           \<and> length examples' = length examples
           \<and> (\<forall>i < length examples.
                 examples' ! i =
                   foldl (\<lambda>example a.
                            if len (docs a ! i) \<noteq> 0
                            then message_set example (SPACY_DOCS c a) (docs a ! i)
                            else example)
                     (examples ! i) attributes)"
  using assms
proof (induction attributes arbitrary: examples)
  case Nil
  show ?case by simp
next
  case (Cons attribute attributes)
  let ?step = "\<lambda>(example, d).
                 if len d \<noteq> 0 then message_set example (SPACY_DOCS c attribute) d else example"
  let ?examples1 = "map ?step (zip examples (docs attribute))"
  have here: "attribute_docs attribute = Some (docs attribute)"
    and size: "length (docs attribute) = length examples"
    using Cons.prems by simp_all
  have first: "train_examples c attribute_docs attribute 0 examples = Inr ?examples1"
    using here size
      train_examples_Some [where attribute_docs = attribute_docs and attribute = attribute
        and docs = "docs attribute" and idx = 0 and examples = examples and c = c]
    by simp
  have length1: "length ?examples1 = length examples"
    using size by simp
  have "\<forall>a \<in> set attributes.
          attribute_docs a = Some (docs a) \<and> length (docs a) = length ?examples1"
    using Cons.prems length1 by simp
  from Cons.IH [OF this] obtain examples' where
    run: "train_attributes c attribute_docs attributes ?examples1 = Inr examples'"
    and length': "length examples' = length ?examples1"
    and each: "\<forall>i < length ?examples1.
                 examples' ! i =
                   foldl (\<lambda>example a.
                            if len (docs a ! i) \<noteq> 0
                            then message_set example (SPACY_DOCS c a) (docs a ! i)
                            else example)
                     (?examples1 ! i) attributes"
    by blast
  have "examples' ! i =
          foldl (\<lambda>example a.
                   if len (docs a ! i) \<noteq> 0
                   then message_set example (SPACY_DOCS c a) (docs a ! i)
                   else example)
            (examples ! i) (attribute # attributes)"
    if "i < length examples" for i
    using that each size by simp
  then show ?case
    using run length' length1 by (simp add: first)
qed

lemma attach_text_data:
  "text_data (foldl (\<lambda>example a. if P a then message_set example (slot a) (d a) else example)
                example attributes) = text_data example"
  by (induction attributes arbitrary: example) (simp_all add: message_set_def)

lemma attach_elsewhere:
  assumes "s \<notin> slot ` set attributes"
  shows "doc_data (foldl (\<lambda>example a. if P a then message_set example (slot a) (d a) else example)
                     example attributes) s = doc_data example s"
  using assms by (induction attributes arbitrary: example) (auto simp: message_set_def)

lemma attach_slot:
  assumes "inj_on slot (set attributes)" and "attribute \<in> set attributes"
  shows "doc_data (foldl (\<lambda>example a. if P a then message_set example (slot a) (d a) else example)
                     example attributes) (slot attribute)
         = (if P attribute then Some (d attribute) else doc_data example (slot attribute))"
  using assms
proof (induction attributes rule: rev_induct)
  case Nil
  then show ?case by simp
next
  case (snoc b bs)
  have inj: "inj_on slot (set bs)"
    using snoc.prems(1) by (simp add: inj_on_def)
  show ?case
  proof (cases "attribute = b")
    case True
    show ?thesis
    proof (cases "b \<in> set bs")
      case True
      with \<open>attribute = b\<close> snoc.IH [OF inj] show ?thesis
        by (simp add: message_set_def)
    next
      case False
      then have "slot b \<notin> slot ` set bs"
        using snoc.prems(1) by (auto simp: inj_on_def)
      with \<open>attribute = b\<close> show ?thesis
        by (simp add: attach_elsewhere message_set_def)
    qed
  next
    case False
    then have "attribute \<in> set bs" and "slot b \<noteq> slot attribute"
      using snoc.prems by (auto simp: inj_on_def)
    with snoc.IH [OF inj] show ?thesis
      by (simp add: message_set_def)
  qed
qed

lemma attribute_samples_keys:
  "map fst (attribute_samples self u training_examples attribute)
     = map int [0..<length training_examples]"
  by (simp add: attribute_samples_def map_fst_enumerate_from)

lemma attribute_samples_texts:
  "map snd (attribute_samples self u training_examples attribute)
     = map (\<lambda>e. get_text self u e attribute) training_examples"
  by (simp add: attribute_samples_def map_snd_enumerate_from)

lemma attribute_samples_nth:
  assumes "i < length training_examples"
  shows "attribute_samples self u training_examples attribute ! i
           = (int i, get_text self u (training_examples ! i) attribute)"
proof -
  let ?samples = "attribute_samples self u training_examples attribute"
  have size: "length ?samples = length training_examples"
    by (simp add: attribute_samples_def length_enumerate_from)
  have "fst (?samples ! i) = map fst ?samples ! i" and "snd (?samples ! i) = map snd ?samples ! i"
    using assms size by simp_all
  then show ?thesis
    using assms by (simp add: attribute_samples_keys attribute_samples_texts prod_eq_iff)
qed

text \<open>The documents of one attribute in the order of the examples, for a provider that returns
  one document for each text.\<close>

lemma attribute_documents:
  assumes "nlp self = Some provider"
    and samples: "samples = attribute_samples self u training_examples attribute"
    and to_pipe: "samples_to_pipe = filter (\<lambda>s. snd s \<noteq> []) samples"
    and contract: "length (pipe provider (map snd samples_to_pipe) 50) = length samples_to_pipe"
    and out: "out = projr (snd (attribute_document_list self samples))"
  shows "length out = length training_examples"
    and "i < length training_examples \<Longrightarrow> get_text self u (training_examples ! i) attribute = []
           \<Longrightarrow> snd (out ! i) = SpacyDoc (Doc (vocab provider) [])"
    and "i < length training_examples \<Longrightarrow> get_text self u (training_examples ! i) attribute \<noteq> []
           \<Longrightarrow> \<exists>k < length samples_to_pipe.
                 samples_to_pipe ! k = (int i, get_text self u (training_examples ! i) attribute)
                 \<and> snd (out ! i) = SpacyDoc (pipe provider (map snd samples_to_pipe) 50 ! k)"
proof -
  let ?docs = "pipe provider (map snd samples_to_pipe) 50"
  have positions: "map fst samples = map int [0..<length training_examples]"
    by (simp add: samples attribute_samples_keys)
  have distinct: "distinct (map fst samples)"
    unfolding positions by (simp add: distinct_map inj_on_def)
  have sorted: "sorted (map fst samples)"
    unfolding positions by (simp add: sorted_map sorted_wrt_iff_nth_less)
  have merged: "out = merge_content_lists samples
           (map (\<lambda>(to_pipe_sample, d). (fst to_pipe_sample, d))
              (zip (filter (\<lambda>s. snd s \<noteq> []) samples)
                 (pipe provider (map snd (filter (\<lambda>s. snd s \<noteq> []) samples)) 50))
            @ map (\<lambda>empty_sample. (fst empty_sample, Doc (vocab provider) []))
                (filter (\<lambda>s. snd s = []) samples))"
    by (simp add: out attribute_document_list_Some [OF assms(1)])
  note facts = merged_documents [OF distinct contract [unfolded to_pipe] merged, folded to_pipe]
  have keys: "map fst out = map int [0..<length training_examples]"
    using facts(1) sorted by (simp add: sorted_sort_id positions)
  then have size: "length out = length training_examples"
    by (metis length_map length_upt minus_nat.diff_0)
  show "length out = length training_examples"
    by (rule size)
  have at: "snd (out ! i) = v" if "i < length training_examples" and "(int i, v) \<in> set out" for i v
  proof -
    have "fst (out ! i) = map fst out ! i"
      using that(1) size by simp
    then have "fst (out ! i) = int i"
      using that(1) by (simp add: keys)
    then have "(int i, snd (out ! i)) \<in> set out"
      using that(1) size by (metis nth_mem prod.collapse)
    moreover have "distinct (map fst out)"
      unfolding keys by (simp add: distinct_map inj_on_def)
    ultimately show ?thesis
      using that(2) by (metis eq_key_imp_eq_value)
  qed
  show "snd (out ! i) = SpacyDoc (Doc (vocab provider) [])"
    if i: "i < length training_examples"
      and "get_text self u (training_examples ! i) attribute = []"
  proof -
    have "samples ! i = (int i, [])"
      using that by (simp add: samples attribute_samples_nth)
    moreover have "i < length samples"
      using i positions by (metis length_map length_upt minus_nat.diff_0)
    ultimately have "(int i, []) \<in> set samples"
      by (metis nth_mem)
    then show ?thesis
      by (intro at [OF i] facts(3))
  qed
  show "\<exists>k < length samples_to_pipe.
          samples_to_pipe ! k = (int i, get_text self u (training_examples ! i) attribute)
          \<and> snd (out ! i) = SpacyDoc (?docs ! k)"
    if i: "i < length training_examples"
      and "get_text self u (training_examples ! i) attribute \<noteq> []"
  proof -
    have "samples ! i = (int i, get_text self u (training_examples ! i) attribute)"
      using that by (simp add: samples attribute_samples_nth)
    moreover have "i < length samples"
      using i positions by (metis length_map length_upt minus_nat.diff_0)
    ultimately have "(int i, get_text self u (training_examples ! i) attribute) \<in> set samples"
      by (metis nth_mem)
    then have "(int i, get_text self u (training_examples ! i) attribute) \<in> set samples_to_pipe"
      using that(2) by (simp add: to_pipe)
    then obtain k where k: "k < length samples_to_pipe"
      "samples_to_pipe ! k = (int i, get_text self u (training_examples ! i) attribute)"
      by (auto simp: in_set_conv_nth)
    then have "(int i, SpacyDoc (?docs ! k)) \<in> set out"
      using facts(4) [of k] contract by simp
    then have "snd (out ! i) = SpacyDoc (?docs ! k)"
      by (rule at [OF i])
    with k show ?thesis
      by blast
  qed
qed

text \<open>
  C5, as the code has it. \<^verbatim>\<open>train\<close> returns, and for every example and every dense
  featurizable attribute: when the example's text for the attribute normalises to the empty
  string, \<^verbatim>\<open>train\<close> leaves the attribute's document slot as it was; when the normalised
  text is not empty, the slot holds the document the provider made for that text if this
  document has at least one token, and is left as it was if the document has none. The
  provider is taken to return one document for each text it is given, and the names in
  \<^verbatim>\<open>SPACY_DOCS\<close> to differ from one attribute to the other.
\<close>

theorem train_attachment:
  assumes "nlp self = Some provider"
    and "inj_on (SPACY_DOCS c) (set (DENSE_FEATURIZABLE_ATTRIBUTES c))"
    and "\<forall>a \<in> set (DENSE_FEATURIZABLE_ATTRIBUTES c).
           length (pipe provider
                     (map snd (fst (filter_training_samples_by_content
                                      (attribute_samples self u training_examples a)))) 50)
             = length (fst (filter_training_samples_by_content
                              (attribute_samples self u training_examples a)))"
  shows "\<exists>examples'.
           snd (train self u c training_examples) = Inr examples'
           \<and> length examples' = length training_examples
           \<and> (\<forall>i < length training_examples. \<forall>a \<in> set (DENSE_FEATURIZABLE_ATTRIBUTES c).
                 text_data (examples' ! i) = text_data (training_examples ! i)
                 \<and> (if get_text self u (training_examples ! i) a = []
                    then doc_data (examples' ! i) (SPACY_DOCS c a)
                           = doc_data (training_examples ! i) (SPACY_DOCS c a)
                    else \<exists>k < length (fst (filter_training_samples_by_content
                                              (attribute_samples self u training_examples a))).
                           fst (filter_training_samples_by_content
                                  (attribute_samples self u training_examples a)) ! k
                             = (int i, get_text self u (training_examples ! i) a)
                           \<and> doc_data (examples' ! i) (SPACY_DOCS c a)
                               = (if tokens (pipe provider
                                      (map snd (fst (filter_training_samples_by_content
                                         (attribute_samples self u training_examples a)))) 50 ! k)
                                     \<noteq> []
                                  then Some (SpacyDoc
                                   (pipe provider
                                      (map snd (fst (filter_training_samples_by_content
                                         (attribute_samples self u training_examples a)))) 50 ! k))
                                  else doc_data (training_examples ! i) (SPACY_DOCS c a))))"
proof -
  let ?attributes = "DENSE_FEATURIZABLE_ATTRIBUTES c"
  let ?samples = "\<lambda>a. attribute_samples self u training_examples a"
  let ?to_pipe = "\<lambda>a. filter (\<lambda>s. snd s \<noteq> []) (?samples a)"
  let ?piped = "\<lambda>a. pipe provider (map snd (?to_pipe a)) 50"
  let ?out = "\<lambda>a. projr (snd (attribute_document_list self (?samples a)))"
  let ?docs = "\<lambda>a. map snd (?out a)"
  let ?attribute_docs = "\<lambda>a. if a \<in> set ?attributes then Some (?docs a) else None"
  have filtered: "fst (filter_training_samples_by_content (?samples a)) = ?to_pipe a" for a
    by (simp add: filter_training_samples_by_content_def)
  have contract: "length (?piped a) = length (?to_pipe a)" if "a \<in> set ?attributes" for a
    using assms(3) that unfolding filtered by blast
  note documents = attribute_documents [OF assms(1) refl refl contract refl]
  have run: "snd (train self u c training_examples)
               = train_attributes c ?attribute_docs ?attributes training_examples"
    by (simp add: train_def docs_for_training_data_def docs_for_attributes_Some [OF assms(1)])
  have "\<forall>a \<in> set ?attributes.
          ?attribute_docs a = Some (?docs a) \<and> length (?docs a) = length training_examples"
    using documents(1) by simp
  from train_attributes_Some [OF this, of c] obtain examples' where
    trained: "train_attributes c ?attribute_docs ?attributes training_examples = Inr examples'"
    and size: "length examples' = length training_examples"
    and each: "\<forall>i < length training_examples.
                 examples' ! i =
                   foldl (\<lambda>example a.
                            if len (?docs a ! i) \<noteq> 0
                            then message_set example (SPACY_DOCS c a) (?docs a ! i)
                            else example)
                     (training_examples ! i) ?attributes"
    by blast
  have slot: "text_data (examples' ! i) = text_data (training_examples ! i)
      \<and> (if get_text self u (training_examples ! i) a = []
         then doc_data (examples' ! i) (SPACY_DOCS c a)
                = doc_data (training_examples ! i) (SPACY_DOCS c a)
         else \<exists>k < length (?to_pipe a).
                ?to_pipe a ! k = (int i, get_text self u (training_examples ! i) a)
                \<and> doc_data (examples' ! i) (SPACY_DOCS c a)
                    = (if tokens (?piped a ! k) \<noteq> [] then Some (SpacyDoc (?piped a ! k))
                       else doc_data (training_examples ! i) (SPACY_DOCS c a)))"
    if i: "i < length training_examples" and a: "a \<in> set ?attributes" for i a
  proof -
    have example: "examples' ! i =
        foldl (\<lambda>example a.
                 if len (?docs a ! i) \<noteq> 0
                 then message_set example (SPACY_DOCS c a) (?docs a ! i)
                 else example)
          (training_examples ! i) ?attributes"
      using each i by blast
    have texts: "text_data (examples' ! i) = text_data (training_examples ! i)"
      unfolding example by (rule attach_text_data)
    have attached: "doc_data (examples' ! i) (SPACY_DOCS c a)
        = (if len (?docs a ! i) \<noteq> 0 then Some (?docs a ! i)
           else doc_data (training_examples ! i) (SPACY_DOCS c a))"
      unfolding example by (rule attach_slot [OF assms(2) a])
    have nth: "?docs a ! i = snd (?out a ! i)"
      using i documents(1) [OF a] by simp
    show ?thesis
    proof (cases "get_text self u (training_examples ! i) a = []")
      case True
      then have "?docs a ! i = SpacyDoc (Doc (vocab provider) [])"
        using documents(2) [OF a i] nth by simp
      with True texts attached show ?thesis
        by simp
    next
      case False
      then obtain k where k: "k < length (?to_pipe a)"
        "?to_pipe a ! k = (int i, get_text self u (training_examples ! i) a)"
        "snd (?out a ! i) = SpacyDoc (?piped a ! k)"
        using documents(3) [OF a i] by blast
      have "doc_data (examples' ! i) (SPACY_DOCS c a)
              = (if tokens (?piped a ! k) \<noteq> [] then Some (SpacyDoc (?piped a ! k))
                 else doc_data (training_examples ! i) (SPACY_DOCS c a))"
        using attached nth k(3) by simp
      with False texts k(1,2) show ?thesis
        by auto
    qed
  qed
  show ?thesis
    unfolding filtered using run trained size slot by (intro exI [of _ examples']) simp
qed

theorem train_attachment_witness:
  "nlp example_component = Some example_provider
   \<and> inj_on (SPACY_DOCS example_constants) (set (DENSE_FEATURIZABLE_ATTRIBUTES example_constants))
   \<and> pipe example_provider
        (map snd (fst (filter_training_samples_by_content
           (attribute_samples example_component example_unicode
              [\<lparr>text_data = [''text'' \<mapsto> str ''Hello World''], doc_data = Map.empty\<rparr>,
               \<lparr>text_data = [''text'' \<mapsto> []], doc_data = Map.empty\<rparr>,
               \<lparr>text_data = [''text'' \<mapsto> str '' ''], doc_data = Map.empty\<rparr>] ''text'')))) 50
       = [Doc () [str ''hello'', str ''world''], Doc () []]
   \<and> (\<exists>examples'.
         snd (train example_component example_unicode example_constants
                [\<lparr>text_data = [''text'' \<mapsto> str ''Hello World''], doc_data = Map.empty\<rparr>,
                 \<lparr>text_data = [''text'' \<mapsto> []], doc_data = Map.empty\<rparr>,
                 \<lparr>text_data = [''text'' \<mapsto> str '' ''], doc_data = Map.empty\<rparr>])
           = Inr examples'
         \<and> length examples' = 3
         \<and> doc_data (examples' ! 0) ''text_spacy_doc''
             = Some (SpacyDoc (Doc () [str ''hello'', str ''world'']))
         \<and> doc_data (examples' ! 1) ''text_spacy_doc'' = None
         \<and> doc_data (examples' ! 2) ''text_spacy_doc'' = None)"
proof -
  let ?e0 = "\<lparr>text_data = [''text'' \<mapsto> str ''Hello World''], doc_data = Map.empty\<rparr> :: unit Message"
  let ?e1 = "\<lparr>text_data = [''text'' \<mapsto> []], doc_data = Map.empty\<rparr> :: unit Message"
  let ?e2 = "\<lparr>text_data = [''text'' \<mapsto> str '' ''], doc_data = Map.empty\<rparr> :: unit Message"
  let ?examples = "[?e0, ?e1, ?e2]"
  let ?to_pipe = "\<lambda>a. fst (filter_training_samples_by_content
                              (attribute_samples example_component example_unicode ?examples a))"
  have provider: "nlp example_component = Some example_provider"
    by (simp add: example_component_def)
  have names: "inj_on (SPACY_DOCS example_constants)
                 (set (DENSE_FEATURIZABLE_ATTRIBUTES example_constants))"
    by (simp add: example_constants_def inj_on_def)
  have attributes: "DENSE_FEATURIZABLE_ATTRIBUTES example_constants
                      = [''text'', ''response'', ''action_text'']"
    and slot: "SPACY_DOCS example_constants ''text'' = ''text_spacy_doc''"
    by (simp_all add: example_constants_def)
  have lowered: "lower example_unicode (str ''Hello World'') = str ''hello world''"
    "lower example_unicode (str '' '') = str '' ''"
    by (simp_all add: lower_def lower_ucs4_def str_def)
  have empty: "lower example_unicode [] = []"
    by (simp add: lower_def)
  have texts: "get_text example_component example_unicode ?e0 ''text'' = str ''hello world''"
    "get_text example_component example_unicode ?e1 ''text'' = []"
    "get_text example_component example_unicode ?e2 ''text'' = str '' ''"
    "get_text example_component example_unicode ?e0 ''response'' = []"
    "get_text example_component example_unicode ?e1 ''response'' = []"
    "get_text example_component example_unicode ?e2 ''response'' = []"
    "get_text example_component example_unicode ?e0 ''action_text'' = []"
    "get_text example_component example_unicode ?e1 ''action_text'' = []"
    "get_text example_component example_unicode ?e2 ''action_text'' = []"
    by (simp_all add: get_text_def preprocess_text_def message_get_def example_component_def
        lowered empty)
  have to_pipe: "?to_pipe ''text'' = [(0, str ''hello world''), (2, str '' '')]"
    "?to_pipe ''response'' = []" "?to_pipe ''action_text'' = []"
    by (simp_all add: attribute_samples_def filter_training_samples_by_content_def texts
        str_eq_Nil)
  have piped: "pipe example_provider (map snd (?to_pipe ''text'')) 50
                 = [Doc () [str ''hello'', str ''world''], Doc () []]"
    "pipe example_provider (map snd (?to_pipe ''response'')) 50 = []"
    "pipe example_provider (map snd (?to_pipe ''action_text'')) 50 = []"
    unfolding to_pipe by (simp_all add: example_provider_def str_def)
  have answered: "pipe example_provider [str ''hello world'', str '' ''] 50
                    = [Doc () [str ''hello'', str ''world''], Doc () []]"
    by (simp add: example_provider_def str_def)
  have contract: "\<forall>a \<in> set (DENSE_FEATURIZABLE_ATTRIBUTES example_constants).
      length (pipe example_provider (map snd (?to_pipe a)) 50) = length (?to_pipe a)"
    unfolding attributes using piped to_pipe by simp
  obtain examples' where run:
      "snd (train example_component example_unicode example_constants ?examples) = Inr examples'"
    and size: "length examples' = length ?examples"
    and each: "\<forall>i < length ?examples.
        \<forall>a \<in> set (DENSE_FEATURIZABLE_ATTRIBUTES example_constants).
          text_data (examples' ! i) = text_data (?examples ! i)
          \<and> (if get_text example_component example_unicode (?examples ! i) a = []
             then doc_data (examples' ! i) (SPACY_DOCS example_constants a)
                    = doc_data (?examples ! i) (SPACY_DOCS example_constants a)
             else \<exists>k < length (?to_pipe a).
                    ?to_pipe a ! k
                      = (int i, get_text example_component example_unicode (?examples ! i) a)
                    \<and> doc_data (examples' ! i) (SPACY_DOCS example_constants a)
                        = (if tokens (pipe example_provider (map snd (?to_pipe a)) 50 ! k) \<noteq> []
                           then Some (SpacyDoc
                                  (pipe example_provider (map snd (?to_pipe a)) 50 ! k))
                           else doc_data (?examples ! i) (SPACY_DOCS example_constants a)))"
    using train_attachment [OF provider names contract] by blast
  have first: "doc_data (examples' ! 0) ''text_spacy_doc''
                 = Some (SpacyDoc (Doc () [str ''hello'', str ''world'']))"
    using each [rule_format, of 0 "''text''"] texts(1)
    by (auto simp: attributes slot str_eq_Nil to_pipe answered less_Suc_eq numeral_2_eq_2)
  have second: "doc_data (examples' ! 1) ''text_spacy_doc'' = None"
    using each [rule_format, of 1 "''text''"] texts(2) by (simp add: attributes slot)
  have third: "doc_data (examples' ! 2) ''text_spacy_doc'' = None"
    using each [rule_format, of 2 "''text''"] texts(3)
    by (auto simp: attributes slot str_eq_Nil to_pipe answered less_Suc_eq numeral_2_eq_2)
  show ?thesis
    using provider names piped(1) run size first second third by simp
qed

text \<open>
  C5, as it is stated, fails: the text of one space is not empty after normalisation, the
  provider returns for it the one document asked of it, a document without tokens, and
  \<^verbatim>\<open>train\<close> attaches nothing.
\<close>

theorem nonempty_text_not_attached_counterexample:
  "get_text example_component example_unicode
       \<lparr>text_data = [''text'' \<mapsto> str '' ''], doc_data = Map.empty\<rparr> ''text'' = [32]
   \<and> pipe example_provider [[32]] 50 = [Doc () []]
   \<and> train example_component example_unicode example_constants
         [\<lparr>text_data = [''text'' \<mapsto> str '' ''], doc_data = Map.empty\<rparr>]
       = ([PipeCall [[32]] 50, PipeCall [] 50, PipeCall [] 50],
          Inr [\<lparr>text_data = [''text'' \<mapsto> str '' ''], doc_data = Map.empty\<rparr>])"
proof -
  let ?example = "\<lparr>text_data = [''text'' \<mapsto> str '' ''], doc_data = Map.empty\<rparr> :: unit Message"
  have texts: "get_text example_component example_unicode ?example ''text'' = [32]"
    "get_text example_component example_unicode ?example ''response'' = []"
    "get_text example_component example_unicode ?example ''action_text'' = []"
    by (simp_all add: get_text_def preprocess_text_def message_get_def example_component_def
        lower_def lower_ucs4_def str_def)
  have piped: "pipe example_provider [[32]] 50 = [Doc () []]"
    by (simp add: example_provider_def)
  have provider: "nlp example_component = Some example_provider"
    by (simp add: example_component_def)
  have documents: "attribute_document_list example_component [(0, [32])]
                     = ([PipeCall [[32]] 50], Inr [(0, SpacyDoc (Doc () []))])"
    "attribute_document_list example_component [(0, [])]
       = ([PipeCall [] 50], Inr [(0, SpacyDoc (Doc () []))])"
    by (simp_all add: attribute_document_list_Some [OF provider] piped merge_content_lists_def
        dict_def dict_update_def example_provider_def)
  have "train example_component example_unicode example_constants [?example]
          = ([PipeCall [[32]] 50, PipeCall [] 50, PipeCall [] 50], Inr [?example])"
    by (simp add: train_def docs_for_training_data_def attribute_samples_def texts documents
        example_constants_def)
  with texts(1) piped show ?thesis
    by simp
qed

end
